theory Spec2Isabelle
  imports Complex_Main "HOL-Library.AList"
begin

section \<open>Errors and helpers\<close>

text \<open>
  A JavaScript number is a finite value, taken here as a rational, or one of the three
  non-finite values.
\<close>

datatype number = Finite rat | NaN | PositiveInfinity | NegativeInfinity

text \<open>What a model violation complains about (section 7 of the specification).\<close>

datatype violation =
    MissingRequiredField
  | NonFiniteNumber number
  | TypeMismatch
  | UnexpectedProperty
  | AbstractInstance

text \<open>
  Every \<^verbatim>\<open>throw\<close> of the JavaScript source is a value of this type. The first argument
  of \<open>IllegalModelException\<close> is the key of the Globalize message (or the literal
  text), the second the value of its \<^verbatim>\<open>type\<close> parameter. A \<open>ModelViolation\<close> names
  the instance (its fully qualified type name, \<^verbatim>\<open>#\<close>, its identifier) and the field.
\<close>

datatype error =
    IllegalModelException string string
  | TypeNotFoundException string string
  | ModelViolation string string violation
  | Error string
  | TypeError string

text \<open>\<^verbatim>\<open>String.prototype.startsWith\<close>.\<close>

definition startsWith :: "string \<Rightarrow> string \<Rightarrow> bool" where
  "startsWith s p = (take (length p) s = p)"

subsection \<open>ModelUtil\<close>

text \<open>
  \<^verbatim>\<open>lib/modelutil.js\<close> is not among the sources; the three helpers used by the
  model file and the manager follow sections 2 and 3 of the specification.
\<close>

text \<open>
  Modelled from the spec: \<^verbatim>\<open>ModelUtil.isPrimitiveType\<close>. Section 3: the primitive type
  names are the closed set String, Boolean, DateTime, Double, Long, Integer.
\<close>

definition isPrimitiveType :: "string \<Rightarrow> bool" where
  "isPrimitiveType t =
     (t \<in> set [''String'', ''Boolean'', ''DateTime'', ''Double'', ''Long'', ''Integer''])"

text \<open>
  Modelled from the spec: \<^verbatim>\<open>ModelUtil.getNamespace\<close>. Section 3: a fully qualified name
  is \<^verbatim>\<open><namespace>.<short name>\<close> and a short name is a single segment, so the namespace
  is what precedes the last dot, and is empty when there is no dot.
\<close>

definition getNamespace :: "string \<Rightarrow> string" where
  "getNamespace fqn =
     (if CHR ''.'' \<in> set fqn
      then rev (tl (dropWhile (\<lambda>c. c \<noteq> CHR ''.'') (rev fqn)))
      else [])"

datatype import =
    ImportAll (imp_namespace: string) (imp_uri: "string option")
  | ImportType (imp_namespace: string) (imp_name: string) (imp_uri: "string option")

text \<open>
  Modelled from the spec: \<^verbatim>\<open>ModelUtil.importFullyQualifiedName\<close>. Section 6: an import is
  written \<^verbatim>\<open><ns>.<name>\<close> or \<^verbatim>\<open><ns>.*\<close>.
\<close>

fun importFullyQualifiedName :: "import \<Rightarrow> string" where
  "importFullyQualifiedName (ImportAll ns u) = ns @ ''.*''"
| "importFullyQualifiedName (ImportType ns n u) = ns @ ''.'' @ n"

section \<open>The metamodel AST and class declarations\<close>

text \<open>
  An AST declaration carries its \<^verbatim>\<open>$class\<close> string, its name and the name of its
  optional super type (\<^verbatim>\<open>thing.superType.name\<close>).
\<close>

record astDeclaration =
  thing_class :: string
  thing_name :: string
  thing_isAbstract :: bool
  thing_superType :: "string option"

record modelAst =
  ast_namespace :: string
  ast_imports :: "import list option"
  ast_declarations :: "astDeclaration list option"
  ast_concertoVersion :: "string option"

datatype declarationKind = Asset | Participant | Transaction | Event | Concept | Enum

text \<open>
  Modelled from the spec: the declaration classes (\<^verbatim>\<open>classdeclaration.js\<close> and its six
  subclasses) are not among the sources. Section 3 gives a declaration its kind, its
  short name, its abstract flag and its super type; it belongs to one model file.
\<close>

record classDeclaration =
  kind :: declarationKind
  modelFileNamespace :: string
  name :: string
  isAbstract :: bool
  superType :: "string option"

text \<open>
  Modelled from the spec: the constructors of the declaration classes, which
  \<^verbatim>\<open>fromAst\<close> calls with the model file and the AST node. The declaration takes its
  name, abstract flag and super type from the node.
\<close>

definition newClassDeclaration :: "declarationKind \<Rightarrow> string \<Rightarrow> astDeclaration \<Rightarrow> classDeclaration" where
  "newClassDeclaration k ns thing =
     \<lparr> kind = k, modelFileNamespace = ns, name = thing_name thing,
       isAbstract = thing_isAbstract thing, superType = thing_superType thing \<rparr>"

text \<open>
  Modelled from the spec: \<^verbatim>\<open>ClassDeclaration.getName\<close>, the short name.
\<close>

definition getName :: "classDeclaration \<Rightarrow> string" where
  "getName d = name d"

text \<open>
  Modelled from the spec: \<^verbatim>\<open>ClassDeclaration.getFullyQualifiedName\<close>. Section 3: the
  namespace, a dot, the short name.
\<close>

definition getFullyQualifiedName :: "classDeclaration \<Rightarrow> string" where
  "getFullyQualifiedName d = modelFileNamespace d @ ''.'' @ name d"

section \<open>ModelFile\<close>

text \<open>
  The two JavaScript \<^verbatim>\<open>Map\<close>s and the URI object are association lists in insertion
  order; \<^verbatim>\<open>set\<close> is \<open>AList.update\<close>, \<^verbatim>\<open>has\<close>/\<^verbatim>\<open>get\<close> are \<open>map_of\<close>. The
  reference to the owning manager is not a field: every operation that reads the manager
  takes its current state as an argument.
\<close>

record modelFile =
  namespace :: string
  declarations :: "classDeclaration list"
  localTypes :: "(string \<times> classDeclaration) list"
  fileImports :: "import list"
  importShortNames :: "(string \<times> string) list"
  importWildcardNamespaces :: "string list"
  importUriMap :: "(string \<times> string) list"
  fileName :: "string option"
  external :: bool
  concertoVersion :: "string option"
  definitions :: "string option"
  ast :: modelAst

text \<open>
  \<^verbatim>\<open>ModelFile.getNamespace\<close>.
\<close>

definition getNamespaceOf :: "modelFile \<Rightarrow> string" where
  "getNamespaceOf mf = namespace mf"

text \<open>The five imports every file outside the \<^verbatim>\<open>concerto\<close> namespace receives.\<close>

definition builtinImports :: "import list" where
  "builtinImports =
     [ImportType ''concerto'' ''Concept'' None,
      ImportType ''concerto'' ''Asset'' None,
      ImportType ''concerto'' ''Transaction'' None,
      ImportType ''concerto'' ''Participant'' None,
      ImportType ''concerto'' ''Event'' None]"

text \<open>The body of \<^verbatim>\<open>this.imports.forEach\<close> in \<^verbatim>\<open>fromAst\<close>, on the three tables.\<close>

fun registerImport ::
  "import \<Rightarrow> (string \<times> string) list \<times> string list \<times> (string \<times> string) list
     \<Rightarrow> (string \<times> string) list \<times> string list \<times> (string \<times> string) list" where
  "registerImport imp (shorts, wilds, uris) =
     (let fqn = importFullyQualifiedName imp;
          shorts' = (case imp of ImportAll ns u \<Rightarrow> shorts
                     | ImportType ns n u \<Rightarrow> AList.update n fqn shorts);
          wilds' = (case imp of ImportAll ns u \<Rightarrow> wilds @ [ns]
                    | ImportType ns n u \<Rightarrow> wilds);
          uris' = (case imp_uri imp of Some u \<Rightarrow> (if u \<noteq> [] then AList.update fqn u uris else uris)
                   | None \<Rightarrow> uris)
      in (shorts', wilds', uris'))"

fun registerImports ::
  "import list \<Rightarrow> (string \<times> string) list \<times> string list \<times> (string \<times> string) list
     \<Rightarrow> (string \<times> string) list \<times> string list \<times> (string \<times> string) list" where
  "registerImports [] acc = acc"
| "registerImports (imp # imps) acc = registerImports imps (registerImport imp acc)"

text \<open>
  One pass of the declaration loop of \<^verbatim>\<open>fromAst\<close>: the \<^verbatim>\<open>$class\<close> chain, with the
  default super types of the four identifiable kinds, and the exception for an
  unrecognised element.
\<close>

definition defaultSuper :: "string \<Rightarrow> astDeclaration \<Rightarrow> astDeclaration" where
  "defaultSuper s thing =
     (case thing_superType thing of
        None \<Rightarrow> thing\<lparr> thing_superType := Some s \<rparr>
      | Some t \<Rightarrow> thing)"

definition declarationFromAst :: "string \<Rightarrow> astDeclaration \<Rightarrow> error + classDeclaration" where
  "declarationFromAst ns thing =
     (if thing_class thing = ''concerto.metamodel.AssetDeclaration''
      then Inr (newClassDeclaration Asset ns (defaultSuper ''Asset'' thing))
      else if thing_class thing = ''concerto.metamodel.TransactionDeclaration''
      then Inr (newClassDeclaration Transaction ns (defaultSuper ''Transaction'' thing))
      else if thing_class thing = ''concerto.metamodel.EventDeclaration''
      then Inr (newClassDeclaration Event ns (defaultSuper ''Event'' thing))
      else if thing_class thing = ''concerto.metamodel.ParticipantDeclaration''
      then Inr (newClassDeclaration Participant ns (defaultSuper ''Participant'' thing))
      else if thing_class thing = ''concerto.metamodel.EnumDeclaration''
      then Inr (newClassDeclaration Enum ns thing)
      else if thing_class thing = ''concerto.metamodel.ConceptDeclaration''
      then Inr (newClassDeclaration Concept ns thing)
      else Inl (IllegalModelException ''modelfile-constructor-unrecmodelelem'' (thing_class thing)))"

fun declarationsFromAst :: "string \<Rightarrow> astDeclaration list \<Rightarrow> error + classDeclaration list" where
  "declarationsFromAst ns [] = Inr []"
| "declarationsFromAst ns (thing # things) =
     (case declarationFromAst ns thing of
        Inl e \<Rightarrow> Inl e
      | Inr d \<Rightarrow> (case declarationsFromAst ns things of
                    Inl e \<Rightarrow> Inl e
                  | Inr ds \<Rightarrow> Inr (d # ds)))"

text \<open>The loop of the constructor that fills \<^verbatim>\<open>localTypes\<close>.\<close>

fun buildLocalTypes ::
  "string \<Rightarrow> classDeclaration list \<Rightarrow> (string \<times> classDeclaration) list
     \<Rightarrow> (string \<times> classDeclaration) list" where
  "buildLocalTypes ns [] acc = acc"
| "buildLocalTypes ns (d # ds) acc =
     buildLocalTypes ns ds (AList.update (ns @ ''.'' @ getName d) d acc)"

text \<open>
  The constructor: \<^verbatim>\<open>fromAst\<close>, then \<^verbatim>\<open>isCompatibleVersion\<close>, then the local types.
  \<open>satisfies\<close> stands for \<^verbatim>\<open>semver.satisfies(packageJson.version, _)\<close>, an external
  library applied to a constant of the package.
\<close>

definition newModelFile ::
  "(string \<Rightarrow> bool) \<Rightarrow> modelAst \<Rightarrow> string option \<Rightarrow> string option \<Rightarrow> error + modelFile" where
  "newModelFile satisfies a defs fname =
     (let ns = ast_namespace a;
          imps = (case ast_imports a of None \<Rightarrow> [] | Some is \<Rightarrow> is)
                 @ (if ns \<noteq> ''concerto'' then builtinImports else []);
          tables = registerImports imps ([], [], [])
      in case declarationsFromAst ns (case ast_declarations a of None \<Rightarrow> [] | Some ds \<Rightarrow> ds) of
           Inl e \<Rightarrow> Inl e
         | Inr decls \<Rightarrow>
             (case (case ast_concertoVersion a of
                      None \<Rightarrow> Inr None
                    | Some v \<Rightarrow>
                        if v = [] then Inr None
                        else if satisfies v then Inr (Some v)
                        else Inl (Error (''ModelFile expects Concerto version '' @ v))) of
                Inl e \<Rightarrow> Inl e
              | Inr cv \<Rightarrow>
                  Inr \<lparr> namespace = ns,
                        declarations = decls,
                        localTypes = buildLocalTypes ns decls [],
                        fileImports = imps,
                        importShortNames = fst tables,
                        importWildcardNamespaces = fst (snd tables),
                        importUriMap = snd (snd tables),
                        fileName = fname,
                        external = (case fname of None \<Rightarrow> False
                                    | Some f \<Rightarrow> f \<noteq> [] \<and> startsWith f ''@''),
                        concertoVersion = cv,
                        definitions = defs,
                        ast = a \<rparr>))"

definition getLocalType :: "modelFile \<Rightarrow> string \<Rightarrow> classDeclaration option" where
  "getLocalType mf t =
     (let t' = (if \<not> startsWith t (getNamespaceOf mf) then getNamespaceOf mf @ ''.'' @ t else t)
      in map_of (localTypes mf) t')"

definition isLocalType :: "modelFile \<Rightarrow> string \<Rightarrow> bool" where
  "isLocalType mf t = (t \<noteq> [] \<and> getLocalType mf t \<noteq> None)"

section \<open>The model manager: registry of model files\<close>

text \<open>
  \<^verbatim>\<open>this.modelFiles\<close> is a plain object (\<^verbatim>\<open>{}\<close>) used as a dictionary from namespace
  to model file. Its own properties are an association list: \<^verbatim>\<open>Object.keys\<close>, the
  \<^verbatim>\<open>for\<close>-\<^verbatim>\<open>in\<close> loop and \<^verbatim>\<open>Object.assign\<close> see them, in insertion order;
  assignment to a key is \<open>AList.update\<close> (in place for a known key, at the end for a new
  one), \<^verbatim>\<open>delete\<close> is \<open>AList.delete\<close>.
\<close>

record modelManager =
  modelFiles :: "(string \<times> modelFile) list"

text \<open>
  A plain object inherits the members of \<^verbatim>\<open>Object.prototype\<close>. They are not enumerable
  and \<^verbatim>\<open>delete\<close> does not touch them, but a read by key finds them: each is a function,
  or for \<^verbatim>\<open>__proto__\<close> the prototype object itself, and so truthy.
\<close>

definition objectPrototypeMembers :: "string list" where
  "objectPrototypeMembers =
     [''constructor'', ''hasOwnProperty'', ''isPrototypeOf'', ''propertyIsEnumerable'',
      ''toLocaleString'', ''toString'', ''valueOf'', ''__proto__'',
      ''__defineGetter__'', ''__defineSetter__'', ''__lookupGetter__'', ''__lookupSetter__'']"

text \<open>
  What the read \<^verbatim>\<open>this.modelFiles[ns]\<close> gives: \<^verbatim>\<open>undefined\<close>, the model file stored
  under the key, or an inherited member, which is no model file and has none of its
  methods.
\<close>

datatype registryEntry = Undefined | OwnFile modelFile | Inherited string

text \<open>\<^verbatim>\<open>getModelFile\<close>, and every other read \<^verbatim>\<open>this.modelFiles[ns]\<close>.\<close>

definition getModelFile :: "modelManager \<Rightarrow> string \<Rightarrow> registryEntry" where
  "getModelFile mm ns =
     (case map_of (modelFiles mm) ns of
        Some mf \<Rightarrow> OwnFile mf
      | None \<Rightarrow> if ns \<in> set objectPrototypeMembers then Inherited ns else Undefined)"

subsection \<open>Validation of a model file\<close>

text \<open>
  The callback of \<^verbatim>\<open>this.imports.forEach\<close> in \<^verbatim>\<open>ModelFile.validate\<close>, for one import:
  what the manager returns for the imported namespace must be truthy; a wildcard import
  asks nothing more; for a named import \<^verbatim>\<open>isLocalType\<close> is called on it, which an
  inherited member does not have.
\<close>

definition validateImport :: "modelManager \<Rightarrow> import \<Rightarrow> error option" where
  "validateImport mm imp =
     (case getModelFile mm (imp_namespace imp) of
        Undefined \<Rightarrow> Some (IllegalModelException ''modelmanager-gettype-noregisteredns''
                             (importFullyQualifiedName imp))
      | OwnFile mf \<Rightarrow>
          (case imp of
             ImportAll ns u \<Rightarrow> None
           | ImportType ns n u \<Rightarrow>
               (if \<not> isLocalType mf n
                then Some (IllegalModelException ''modelmanager-gettype-notypeinns'' n)
                else None))
      | Inherited member \<Rightarrow>
          (case imp of
             ImportAll ns u \<Rightarrow> None
           | ImportType ns n u \<Rightarrow> Some (TypeError ''modelFile.isLocalType is not a function'')))"

fun firstError :: "('a \<Rightarrow> error option) \<Rightarrow> 'a list \<Rightarrow> error option" where
  "firstError f [] = None"
| "firstError f (x # xs) = (case f x of Some e \<Rightarrow> Some e | None \<Rightarrow> firstError f xs)"

text \<open>
  \<^verbatim>\<open>ModelFile.validate\<close>. The validation of one class declaration
  (\<^verbatim>\<open>classDeclaration.validate()\<close>, whose class is not among the sources) is the parameter
  \<open>V\<close>: given the manager's state, the file and the declaration it returns the exception
  thrown, if any.
\<close>

type_synonym declValidator = "modelManager \<Rightarrow> modelFile \<Rightarrow> classDeclaration \<Rightarrow> error option"

definition validate :: "declValidator \<Rightarrow> modelManager \<Rightarrow> modelFile \<Rightarrow> error option" where
  "validate V mm mf =
     (case firstError (validateImport mm) (fileImports mf) of
        Some e \<Rightarrow> Some e
      | None \<Rightarrow> firstError (V mm mf) (declarations mf))"

subsection \<open>Adding, deleting and clearing\<close>

text \<open>
  A stateful method returns its result (or the exception) together with the state of the
  manager it leaves behind.
\<close>

text \<open>
  \<^verbatim>\<open>_throwAlreadyExists\<close> calls \<^verbatim>\<open>getName()\<close> on what is stored under the namespace;
  on an inherited member (or on \<^verbatim>\<open>undefined\<close>) that call is the \<open>TypeError\<close>.
\<close>

definition throwAlreadyExists :: "modelManager \<Rightarrow> modelFile \<Rightarrow> error" where
  "throwAlreadyExists mm mf =
     (case getModelFile mm (getNamespaceOf mf) of
        OwnFile ex \<Rightarrow>
          (let existingModelFileName = fileName ex;
               postfix = (case existingModelFileName of None \<Rightarrow> []
                          | Some f \<Rightarrow> if f = [] then [] else '' in file '' @ f);
               prefix = (case fileName mf of None \<Rightarrow> []
                         | Some f \<Rightarrow> if f = [] then [] else '' specified in file '' @ f)
           in Error (''Namespace '' @ getNamespaceOf mf @ prefix @ '' is already declared'' @ postfix))
      | Inherited member \<Rightarrow> TypeError ''this.modelFiles[...].getName is not a function''
      | Undefined \<Rightarrow> TypeError ''Cannot read properties of undefined'')"

text \<open>
  \<^verbatim>\<open>addModelFile\<close> and \<^verbatim>\<open>deleteModelFile\<close> test \<^verbatim>\<open>!this.modelFiles[ns]\<close>: only
  \<^verbatim>\<open>undefined\<close> is falsy. The assignment is reached for a key that reads as
  \<^verbatim>\<open>undefined\<close> only, so it always creates an own property.
\<close>

definition addModelFile ::
  "declValidator \<Rightarrow> modelManager \<Rightarrow> modelFile \<Rightarrow> bool \<Rightarrow> (error + modelFile) \<times> modelManager" where
  "addModelFile V mm mf disableValidation =
     (case getModelFile mm (getNamespaceOf mf) of
        Undefined \<Rightarrow>
          (case (if \<not> disableValidation then validate V mm mf else None) of
             Some e \<Rightarrow> (Inl e, mm)
           | None \<Rightarrow>
               (Inr mf, mm\<lparr> modelFiles := AList.update (getNamespaceOf mf) mf (modelFiles mm) \<rparr>))
      | _ \<Rightarrow> (Inl (throwAlreadyExists mm mf), mm))"

definition deleteModelFile :: "modelManager \<Rightarrow> string \<Rightarrow> (error + unit) \<times> modelManager" where
  "deleteModelFile mm ns =
     (case getModelFile mm ns of
        Undefined \<Rightarrow> (Inl (Error ''Model file does not exist''), mm)
      | _ \<Rightarrow> (Inr (), mm\<lparr> modelFiles := AList.delete ns (modelFiles mm) \<rparr>))"

definition getNamespaces :: "modelManager \<Rightarrow> string list" where
  "getNamespaces mm = map fst (modelFiles mm)"


text \<open>
  \<^verbatim>\<open>validateModelFiles\<close>: every registered file, in key order, against the current
  registry.
\<close>

definition validateModelFiles :: "declValidator \<Rightarrow> modelManager \<Rightarrow> error option" where
  "validateModelFiles V mm =
     firstError (\<lambda>ns. case getModelFile mm ns of
                         OwnFile mf \<Rightarrow> validate V mm mf
                       | _ \<Rightarrow> Some (TypeError ''this.modelFiles[ns].validate is not a function''))
                (getNamespaces mm)"

subsection \<open>Batch add\<close>

text \<open>
  An element of the batch is a CTO string or a model file. \<open>P\<close> is the manager's
  \<^verbatim>\<open>processFile\<close> callback, which may throw; \<open>S\<close> is the version test of the
  \<^verbatim>\<open>ModelFile\<close> constructor.
\<close>

datatype modelInput = CtoString string | ModelFileObject modelFile

type_synonym fileProcessor = "string option \<Rightarrow> string \<Rightarrow> error + modelAst"

definition fileNameAt :: "string list option \<Rightarrow> nat \<Rightarrow> string option" where
  "fileNameAt fileNames n =
     (case fileNames of
        None \<Rightarrow> None
      | Some fs \<Rightarrow> if n < length fs then Some (fs ! n) else None)"

definition inputModelFile ::
  "fileProcessor \<Rightarrow> (string \<Rightarrow> bool) \<Rightarrow> string option \<Rightarrow> modelInput \<Rightarrow> error + modelFile" where
  "inputModelFile P S fname x =
     (case x of
        CtoString s \<Rightarrow> (case P fname s of
                          Inl e \<Rightarrow> Inl e
                        | Inr a \<Rightarrow> newModelFile S a (Some s) fname)
      | ModelFileObject m \<Rightarrow> Inr m)"

text \<open>
  The \<^verbatim>\<open>for\<close> loop of \<^verbatim>\<open>addModelFiles\<close> from index \<open>n\<close> on. An exception leaves the
  loop with the files installed so far still in the registry.
\<close>

fun addModelFilesLoop ::
  "fileProcessor \<Rightarrow> (string \<Rightarrow> bool) \<Rightarrow> string list option \<Rightarrow> modelManager \<Rightarrow> nat
     \<Rightarrow> modelInput list \<Rightarrow> modelFile list \<Rightarrow> (error + modelFile list) \<times> modelManager" where
  "addModelFilesLoop P S fileNames mm n [] newModelFiles = (Inr newModelFiles, mm)"
| "addModelFilesLoop P S fileNames mm n (x # xs) newModelFiles =
     (case inputModelFile P S (fileNameAt fileNames n) x of
        Inl e \<Rightarrow> (Inl e, mm)
      | Inr m \<Rightarrow>
          (case getModelFile mm (getNamespaceOf m) of
             Undefined \<Rightarrow>
               addModelFilesLoop P S fileNames
                 (mm\<lparr> modelFiles := AList.update (getNamespaceOf m) m (modelFiles mm) \<rparr>)
                 (Suc n) xs (newModelFiles @ [m])
           | _ \<Rightarrow> (Inl (throwAlreadyExists mm m), mm)))"

text \<open>
  \<^verbatim>\<open>addModelFiles\<close>: the snapshot, the loop, the validation of the whole registry, and
  the \<^verbatim>\<open>catch\<close> that puts the snapshot back and rethrows.
\<close>

definition addModelFiles ::
  "fileProcessor \<Rightarrow> (string \<Rightarrow> bool) \<Rightarrow> declValidator \<Rightarrow> modelManager \<Rightarrow> modelInput list
     \<Rightarrow> string list option \<Rightarrow> bool \<Rightarrow> (error + modelFile list) \<times> modelManager" where
  "addModelFiles P S V mm inputs fileNames disableValidation =
     (let originalModelFiles = modelFiles mm
      in case addModelFilesLoop P S fileNames mm 0 inputs [] of
           (Inl e, mm') \<Rightarrow> (Inl e, mm'\<lparr> modelFiles := originalModelFiles \<rparr>)
         | (Inr newModelFiles, mm') \<Rightarrow>
             (case (if \<not> disableValidation then validateModelFiles V mm' else None) of
                Some e \<Rightarrow> (Inl e, mm'\<lparr> modelFiles := originalModelFiles \<rparr>)
              | None \<Rightarrow> (Inr newModelFiles, mm')))"

subsection \<open>The root model and the views of the registry\<close>

text \<open>
  Modelled from the spec: one declaration of the root model, whose module
  (\<^verbatim>\<open>lib/rootmodel.js\<close>) is not among the sources. Section 4.1: the root declarations are
  abstract.
\<close>

definition rootDeclaration :: "string \<Rightarrow> astDeclaration" where
  "rootDeclaration n =
     \<lparr> thing_class = ''concerto.metamodel.ConceptDeclaration'', thing_name = n,
       thing_isAbstract = True, thing_superType = None \<rparr>"

text \<open>
  Modelled from the spec: \<^verbatim>\<open>rootModelAst\<close>. Section 4.1: a synthetic \<^verbatim>\<open>concerto\<close>
  namespace with the abstract declarations Concept, Asset, Participant, Transaction and
  Event.
\<close>

definition rootModelAst :: modelAst where
  "rootModelAst =
     \<lparr> ast_namespace = ''concerto'',
       ast_imports = None,
       ast_declarations = Some (map rootDeclaration
          [''Concept'', ''Asset'', ''Participant'', ''Transaction'', ''Event'']),
       ast_concertoVersion = None \<rparr>"

text \<open>
  Modelled from the spec: \<^verbatim>\<open>rootModelFile\<close> and \<^verbatim>\<open>rootModelCto\<close>, the file name and
  the text under which the root model is registered; the text is the five declarations.
\<close>

definition rootModelFile :: string where
  "rootModelFile = ''concerto.cto''"

definition rootModelCto :: string where
  "rootModelCto =
     ''namespace concerto abstract concept Concept {} abstract concept Asset {} ''
     @ ''abstract concept Participant {} abstract concept Transaction {} abstract concept Event {}''"

text \<open>
  \<^verbatim>\<open>addRootModel\<close>: the model file of the root model is built and added with validation.
\<close>

definition addRootModel ::
  "(string \<Rightarrow> bool) \<Rightarrow> declValidator \<Rightarrow> modelManager \<Rightarrow> (error + unit) \<times> modelManager" where
  "addRootModel S V mm =
     (case newModelFile S rootModelAst (Some rootModelCto) (Some rootModelFile) of
        Inl e \<Rightarrow> (Inl e, mm)
      | Inr m \<Rightarrow> (case addModelFile V mm m False of
                    (Inl e, mm') \<Rightarrow> (Inl e, mm')
                  | (Inr r, mm') \<Rightarrow> (Inr (), mm')))"

text \<open>The constructor: an empty registry, then the root model.\<close>

definition newModelManager ::
  "(string \<Rightarrow> bool) \<Rightarrow> declValidator \<Rightarrow> (error + unit) \<times> modelManager" where
  "newModelManager S V = addRootModel S V \<lparr> modelFiles = [] \<rparr>"

definition clearModelFiles ::
  "(string \<Rightarrow> bool) \<Rightarrow> declValidator \<Rightarrow> modelManager \<Rightarrow> (error + unit) \<times> modelManager" where
  "clearModelFiles S V mm = addRootModel S V (mm\<lparr> modelFiles := [] \<rparr>)"

text \<open>
  The loop of \<^verbatim>\<open>getModelFiles\<close> over \<^verbatim>\<open>Object.keys(this.modelFiles)\<close>; every key
  it sees is an own property and reads as its model file.
\<close>

fun getModelFilesLoop :: "modelManager \<Rightarrow> bool \<Rightarrow> string list \<Rightarrow> modelFile list \<Rightarrow> modelFile list" where
  "getModelFilesLoop mm includeConcertoNamespace [] result = result"
| "getModelFilesLoop mm includeConcertoNamespace (ns # keys) result =
     getModelFilesLoop mm includeConcertoNamespace keys
       (if includeConcertoNamespace \<or> ns \<noteq> ''concerto''
        then (case getModelFile mm ns of OwnFile mf \<Rightarrow> result @ [mf] | _ \<Rightarrow> result)
        else result)"

definition getModelFiles :: "modelManager \<Rightarrow> bool \<Rightarrow> modelFile list" where
  "getModelFiles mm includeConcertoNamespace =
     getModelFilesLoop mm includeConcertoNamespace (getNamespaces mm) []"

text \<open>
  \<^verbatim>\<open>getModels\<close> and \<^verbatim>\<open>getAst\<close> both start from \<^verbatim>\<open>this.getModelFiles()\<close>, without the
  argument. \<open>B\<close> is \<^verbatim>\<open>path.basename\<close>; \<open>R\<close> is \<^verbatim>\<open>MetaModelUtil.resolveLocalNames\<close>,
  applied to the unresolved AST of the whole manager and the AST of one file.
\<close>

definition isExternal :: "modelFile \<Rightarrow> bool" where
  "isExternal mf = external mf"

definition getModels ::
  "(string \<Rightarrow> string) \<Rightarrow> modelManager \<Rightarrow> bool \<Rightarrow> (string \<times> string option) list" where
  "getModels B mm includeExternalModels =
     map (\<lambda>file. ((case fileName file of
                      None \<Rightarrow> namespace file @ ''.cto''
                    | Some f \<Rightarrow> if f = ''UNKNOWN'' \<or> f = [] then namespace file @ ''.cto'' else B f),
                   definitions file))
         (filter (\<lambda>file. \<not> (isExternal file \<and> \<not> includeExternalModels)) (getModelFiles mm False))"

definition getAst :: "(modelAst list \<Rightarrow> modelAst \<Rightarrow> modelAst) \<Rightarrow> modelManager \<Rightarrow> bool \<Rightarrow> modelAst list" where
  "getAst R mm resolve =
     map (\<lambda>thisModelFile.
            if resolve then R (map ast (getModelFiles mm False)) (ast thisModelFile)
            else ast thisModelFile)
         (getModelFiles mm False)"

section \<open>Name resolution\<close>

text \<open>
  \<^verbatim>\<open>modelFile && modelFile.isLocalType(type)\<close>, the test the two wildcard loops make on
  what the manager returns for a wildcard namespace. An inherited member is truthy and
  has no \<^verbatim>\<open>isLocalType\<close>.
\<close>

definition declaresLocally :: "modelManager \<Rightarrow> string \<Rightarrow> string \<Rightarrow> error + bool" where
  "declaresLocally mm t wildcardNamespace =
     (case getModelFile mm wildcardNamespace of
        Undefined \<Rightarrow> Inr False
      | OwnFile m \<Rightarrow> Inr (isLocalType m t)
      | Inherited member \<Rightarrow> Inl (TypeError ''modelFile.isLocalType is not a function''))"

text \<open>
  The loop over \<^verbatim>\<open>importWildcardNamespaces\<close> shared by \<^verbatim>\<open>isImportedType\<close> and
  \<^verbatim>\<open>resolveImport\<close>: the first wildcard namespace that passes the test, if any.
\<close>

fun wildcardLoop :: "modelManager \<Rightarrow> string \<Rightarrow> string list \<Rightarrow> error + string option" where
  "wildcardLoop mm t [] = Inr None"
| "wildcardLoop mm t (wildcardNamespace # rest) =
     (case declaresLocally mm t wildcardNamespace of
        Inl e \<Rightarrow> Inl e
      | Inr True \<Rightarrow> Inr (Some wildcardNamespace)
      | Inr False \<Rightarrow> wildcardLoop mm t rest)"

text \<open>\<^verbatim>\<open>ModelFile.isImportedType\<close>: the named imports first, then the wildcard loop.\<close>

definition isImportedType :: "modelManager \<Rightarrow> modelFile \<Rightarrow> string \<Rightarrow> error + bool" where
  "isImportedType mm mf t =
     (if map_of (importShortNames mf) t \<noteq> None then Inr True
      else (case wildcardLoop mm t (importWildcardNamespaces mf) of
              Inl e \<Rightarrow> Inl e
            | Inr w \<Rightarrow> Inr (w \<noteq> None)))"

definition resolveImport :: "modelManager \<Rightarrow> modelFile \<Rightarrow> string \<Rightarrow> error + string" where
  "resolveImport mm mf t =
     (case map_of (importShortNames mf) t of
        Some fqn \<Rightarrow> Inr fqn
      | None \<Rightarrow>
          (case wildcardLoop mm t (importWildcardNamespaces mf) of
             Inl e \<Rightarrow> Inl e
           | Inr (Some wildcardNamespace) \<Rightarrow> Inr (wildcardNamespace @ ''.'' @ t)
           | Inr None \<Rightarrow> Inl (IllegalModelException ''modelfile-resolveimport-failfindimp'' t)))"

text \<open>
  What \<^verbatim>\<open>getType\<close> returns: \<^verbatim>\<open>null\<close>, the name of a primitive type, or a class
  declaration.
\<close>

datatype typeResult = Null | PrimitiveName string | Declaration classDeclaration

definition orNull :: "classDeclaration option \<Rightarrow> typeResult" where
  "orNull r = (case r of None \<Rightarrow> Null | Some d \<Rightarrow> Declaration d)"

text \<open>
  \<^verbatim>\<open>ModelFile.getType\<close>. In the import branch \<^verbatim>\<open>getLocalType\<close> is called on what the
  manager returns for the namespace of the resolved name unless that is falsy.
\<close>

definition ModelFile_getType :: "modelManager \<Rightarrow> modelFile \<Rightarrow> string \<Rightarrow> error + typeResult" where
  "ModelFile_getType mm mf t =
     (if \<not> isPrimitiveType t then
        (case isImportedType mm mf t of
           Inl e \<Rightarrow> Inl e
         | Inr False \<Rightarrow>
             (if \<not> isLocalType mf t then Inr Null
              else Inr (orNull (getLocalType mf t)))
         | Inr True \<Rightarrow>
             (case resolveImport mm mf t of
                Inl e \<Rightarrow> Inl e
              | Inr fqn \<Rightarrow>
                  (case getModelFile mm (getNamespace fqn) of
                     Undefined \<Rightarrow> Inr Null
                   | OwnFile m \<Rightarrow> Inr (orNull (getLocalType m fqn))
                   | Inherited member \<Rightarrow>
                       Inl (TypeError ''modelFile.getLocalType is not a function''))))
      else Inr (PrimitiveName t))"

text \<open>
  \<^verbatim>\<open>getFullyQualifiedTypeName\<close>; calling a method on \<^verbatim>\<open>undefined\<close>, on \<^verbatim>\<open>null\<close> or
  on an inherited member is the \<open>TypeError\<close>.
\<close>

definition getFullyQualifiedTypeName ::
  "modelManager \<Rightarrow> modelFile \<Rightarrow> string \<Rightarrow> error + string option" where
  "getFullyQualifiedTypeName mm mf t =
     (if \<not> isPrimitiveType t then
        (case isImportedType mm mf t of
           Inl e \<Rightarrow> Inl e
         | Inr False \<Rightarrow>
             (if \<not> isLocalType mf t then Inr None
              else (case getLocalType mf t of
                      None \<Rightarrow> Inl (TypeError ''getFullyQualifiedName'')
                    | Some d \<Rightarrow> Inr (Some (getFullyQualifiedName d))))
         | Inr True \<Rightarrow>
             (case resolveImport mm mf t of
                Inl e \<Rightarrow> Inl e
              | Inr fqn \<Rightarrow>
                  (case getModelFile mm (getNamespace fqn) of
                     OwnFile m \<Rightarrow>
                       (case getLocalType m fqn of
                          None \<Rightarrow> Inl (TypeError ''getFullyQualifiedName'')
                        | Some d \<Rightarrow> Inr (Some (getFullyQualifiedName d)))
                   | _ \<Rightarrow> Inl (TypeError ''getLocalType''))))
      else Inr (Some t))"

text \<open>
  \<^verbatim>\<open>BaseModelManager.getType\<close>: \<^verbatim>\<open>getType\<close> is called on what is stored under the
  namespace unless that is falsy.
\<close>

definition ModelManager_getType :: "modelManager \<Rightarrow> string \<Rightarrow> error + typeResult" where
  "ModelManager_getType mm qualifiedName =
     (case getModelFile mm (getNamespace qualifiedName) of
        Undefined \<Rightarrow> Inl (TypeNotFoundException qualifiedName ''modelmanager-gettype-noregisteredns'')
      | Inherited member \<Rightarrow> Inl (TypeError ''modelFile.getType is not a function'')
      | OwnFile mf \<Rightarrow>
          (case ModelFile_getType mm mf qualifiedName of
             Inl e \<Rightarrow> Inl e
           | Inr Null \<Rightarrow> Inl (TypeNotFoundException qualifiedName ''modelmanager-gettype-notypeinns'')
           | Inr classDecl \<Rightarrow> Inr classDecl))"

section \<open>derivesFrom\<close>

text \<open>
  The \<^verbatim>\<open>while\<close> loop of \<^verbatim>\<open>derivesFrom\<close>. \<^verbatim>\<open>getSuperTypeDeclaration()\<close> belongs to
  the declaration classes, which are not among the sources; it is the parameter \<open>superOf\<close>,
  with \<open>None\<close> for \<^verbatim>\<open>null\<close>. The loop has no bound, so its result is an option: \<open>None\<close>
  is a call that does not return.
\<close>

partial_function (option) derivesFromLoop ::
  "(classDeclaration \<Rightarrow> classDeclaration option) \<Rightarrow> string \<Rightarrow> classDeclaration option \<Rightarrow> bool option" where
  "derivesFromLoop superOf fqt2 typeDeclaration =
     (case typeDeclaration of
        None \<Rightarrow> Some False
      | Some d \<Rightarrow>
          if getFullyQualifiedName d = fqt2 then Some True
          else derivesFromLoop superOf fqt2 (superOf d))"

definition derivesFrom ::
  "(classDeclaration \<Rightarrow> classDeclaration option) \<Rightarrow> modelManager \<Rightarrow> string \<Rightarrow> string
     \<Rightarrow> (error + bool) option" where
  "derivesFrom superOf mm fqt1 fqt2 =
     (case ModelManager_getType mm fqt1 of
        Inl e \<Rightarrow> Some (Inl e)
      | Inr Null \<Rightarrow> Some (Inr False)
      | Inr (PrimitiveName p) \<Rightarrow> Some (Inl (TypeError ''getFullyQualifiedName''))
      | Inr (Declaration d) \<Rightarrow> map_option Inr (derivesFromLoop superOf fqt2 (Some d)))"

text \<open>
  The supertype chain of a declaration: the declaration itself, then what
  \<^verbatim>\<open>getSuperTypeDeclaration()\<close> returns, and so on up to a declaration without a super
  type. A cyclic chain has no such list.
\<close>

inductive superChain ::
  "(classDeclaration \<Rightarrow> classDeclaration option) \<Rightarrow> classDeclaration \<Rightarrow> classDeclaration list \<Rightarrow> bool"
  for superOf where
    top: "superOf d = None \<Longrightarrow> superChain superOf d [d]"
  | up: "superOf d = Some d' \<Longrightarrow> superChain superOf d' ds \<Longrightarrow> superChain superOf d (d # ds)"

text \<open>
  Modelled from the spec: \<^verbatim>\<open>ClassDeclaration.getSuperTypeDeclaration\<close> is not among the
  sources. Section 3: a declaration's super type resolves to an existing declaration; the
  name is resolved in the model file of the declaration, looked up in the manager by the
  declaration's namespace. Used to instantiate \<open>superOf\<close> in the concrete runs.
\<close>

definition getSuperTypeDeclaration :: "modelManager \<Rightarrow> classDeclaration \<Rightarrow> classDeclaration option" where
  "getSuperTypeDeclaration mm d =
     (case superType d of
        None \<Rightarrow> None
      | Some st \<Rightarrow>
          (case getModelFile mm (modelFileNamespace d) of
             OwnFile mf \<Rightarrow>
               (case ModelFile_getType mm mf st of
                  Inr (Declaration d') \<Rightarrow> Some d'
                | _ \<Rightarrow> None)
           | _ \<Rightarrow> None))"

section \<open>StringValidator\<close>

text \<open>
  The JavaScript regular-expression engine is a parameter: \<open>newRegExp\<close> is
  \<^verbatim>\<open>new RegExp(pattern, flags)\<close> (or \<^verbatim>\<open>new RegExp(pattern)\<close> for \<open>None\<close>), returning
  the message of the exception for a malformed pattern; \<open>regExpTest\<close> is
  \<^verbatim>\<open>regex.test\<close>, which returns the verdict and the regular expression it leaves behind
  (a global or sticky one carries \<^verbatim>\<open>lastIndex\<close>); \<open>regExpToString\<close> prints it.
\<close>

record 'r regExpEngine =
  newRegExp :: "string \<Rightarrow> string option \<Rightarrow> string + 'r"
  regExpTest :: "'r \<Rightarrow> string \<Rightarrow> bool \<times> 'r"
  regExpToString :: "'r \<Rightarrow> string"

text \<open>The \<^verbatim>\<open>validator\<close> node of the AST and the value handed to \<^verbatim>\<open>validate\<close>.\<close>

record validatorAst =
  pattern :: string
  flags :: "string option"

datatype jsValue = JsNull | JsUndefined | JsString string

fun jsToString :: "jsValue \<Rightarrow> string" where
  "jsToString JsNull = ''null''"
| "jsToString JsUndefined = ''undefined''"
| "jsToString (JsString s) = s"

record 'r stringValidator =
  fieldName :: string
  validator :: validatorAst
  regex :: 'r

text \<open>
  Modelled from the spec: \<^verbatim>\<open>Validator.reportError\<close> of the base class
  (\<^verbatim>\<open>validator.js\<close>) is not among the sources. Section 4.4: a malformed pattern fails
  validation of the containing model, and non-null values must match; the documentation
  comments of the constructor and of \<^verbatim>\<open>validate\<close> name the exception. It always throws,
  with the identifier and the reason it was given.
\<close>

definition reportError :: "string \<Rightarrow> string option \<Rightarrow> error" where
  "reportError ident reason =
     IllegalModelException ident (case reason of None \<Rightarrow> ''undefined'' | Some r \<Rightarrow> r)"

definition newStringValidator ::
  "'r regExpEngine \<Rightarrow> string \<Rightarrow> validatorAst \<Rightarrow> error + 'r stringValidator" where
  "newStringValidator E field v =
     (case (case flags v of
              None \<Rightarrow> newRegExp E (pattern v) None
            | Some f \<Rightarrow> if f \<noteq> [] then newRegExp E (pattern v) (Some f)
                        else newRegExp E (pattern v) None) of
        Inl message \<Rightarrow> Inl (reportError message None)
      | Inr r \<Rightarrow> Inr \<lparr> fieldName = field, validator = v, regex = r \<rparr>)"

definition StringValidator_validate ::
  "'r regExpEngine \<Rightarrow> 'r stringValidator \<Rightarrow> string \<Rightarrow> jsValue
     \<Rightarrow> (error + unit) \<times> 'r stringValidator" where
  "StringValidator_validate E sv identifier v =
     (if v \<noteq> JsNull then
        (case regExpTest E (regex sv) (jsToString v) of
           (matched, r') \<Rightarrow>
             if \<not> matched
             then (Inl (reportError identifier
                          (Some (''Value '' @ [CHR 0x27] @ jsToString v @ [CHR 0x27]
                                 @ '' failed to match validation regex: ''
                                 @ regExpToString E (regex sv)))),
                   sv\<lparr> regex := r' \<rparr>)
             else (Inr (), sv\<lparr> regex := r' \<rparr>))
      else (Inr (), sv))"

section \<open>Serializer: instance to JSON\<close>

text \<open>
  The serializer (\<^verbatim>\<open>lib/serializer.js\<close> and its visitors) is not among the sources; only
  its tests are. Everything in this section follows sections 3, 4.6, 6 and 7 of the
  specification.
\<close>

text \<open>
  Modelled from the spec: the kinds of property. Section 3: Field, Relationship, EnumValue.
\<close>

datatype propertyKind = Field | Relationship | EnumValue

text \<open>
  Modelled from the spec: a property. Section 3: its name, its declared type (a primitive
  name or a fully qualified name), whether it is an array, whether it is optional.
\<close>

record property =
  propName :: string
  propType :: string
  propIsArray :: bool
  propIsOptional :: bool
  propKind :: propertyKind

text \<open>
  Modelled from the spec: a declaration in the validated, linked graph of section 2: its
  fully qualified name, kind and abstract flag, the fully qualified names of all its
  super types, and its own and inherited properties in declaration order.
\<close>

record linkedDeclaration =
  linkedFqn :: string
  linkedKind :: declarationKind
  linkedIsAbstract :: bool
  linkedSuperTypes :: "string list"
  linkedProperties :: "property list"

text \<open>
  Modelled from the spec: the values of an instance. Section 3: a typed instance refers
  to its declaration and holds its identifier (if any), its timestamp (if any) and a
  mapping from property names to values; a relationship holds the fully qualified name
  and the identifier of its target. A DateTime is held as its ISO-8601 text.
\<close>

datatype instanceValue =
    NullValue
  | StringValue string
  | BooleanValue bool
  | NumberValue number
  | DateTimeValue string
  | EnumLiteral string
  | ArrayValue "instanceValue list"
  | RelationshipValue string string
  | TypedValue linkedDeclaration "string option" "string option" "(string \<times> instanceValue) list"

text \<open>
  Modelled from the spec: JSON values; an object keeps its keys in order (section 4.6:
  the first key is \<^verbatim>\<open>$class\<close>).
\<close>

datatype json =
    JsonNull
  | JsonString string
  | JsonNumber number
  | JsonBoolean bool
  | JsonArray "json list"
  | JsonObject "(string \<times> json) list"

text \<open>
  Modelled from the spec: the finite numbers (sections 4.6 and 6: \<^verbatim>\<open>NaN\<close> and the two
  infinities are the non-finite ones).
\<close>

fun isFinite :: "number \<Rightarrow> bool" where
  "isFinite (Finite r) = True"
| "isFinite n = False"

text \<open>
  Modelled from the spec: how an error cites an instance (section 4.6: the fully
  qualified name plus \<^verbatim>\<open>#identifier\<close>).
\<close>

definition instanceLabel :: "linkedDeclaration \<Rightarrow> string option \<Rightarrow> string" where
  "instanceLabel d ident = linkedFqn d @ (case ident of None \<Rightarrow> [] | Some i \<Rightarrow> ''#'' @ i)"

text \<open>
  Modelled from the spec: the value an instance holds for a property name; null counts
  as missing.
\<close>

definition fieldValue :: "(string \<times> instanceValue) list \<Rightarrow> string \<Rightarrow> instanceValue option" where
  "fieldValue vals n = (case map_of vals n of Some NullValue \<Rightarrow> None | r \<Rightarrow> r)"

text \<open>
  Modelled from the spec: a nested instance may have the declared type or a type that
  derives from it (section 4.6, polymorphism).
\<close>

definition assignableTo :: "linkedDeclaration \<Rightarrow> string \<Rightarrow> bool" where
  "assignableTo d t = (linkedFqn d = t \<or> t \<in> set (linkedSuperTypes d))"

text \<open>
  Modelled from the spec: the check of one property of an instance. Section 4.6: a
  missing value is a violation, citing instance and field, unless the property is
  optional; a present value has the verdict computed for it.
\<close>

definition checkProperty ::
  "string \<Rightarrow> (string \<times> instanceValue) list \<Rightarrow> (string \<times> error option) list \<Rightarrow> property
     \<Rightarrow> error option" where
  "checkProperty label vals verdicts p =
     (case fieldValue vals (propName p) of
        None \<Rightarrow> if propIsOptional p then None
                 else Some (ModelViolation label (propName p) MissingRequiredField)
      | Some v \<Rightarrow> (case map_of verdicts (propName p) of None \<Rightarrow> None | Some r \<Rightarrow> r))"

text \<open>
  Modelled from the spec: a stored value whose name is not a property of the declaration
  fails (section 4.6: unexpected properties fail).
\<close>

definition checkDeclared :: "property list \<Rightarrow> string \<times> error option \<Rightarrow> error option" where
  "checkDeclared props verdict =
     (if fst verdict \<in> propName ` set props then None else snd verdict)"

text \<open>
  Modelled from the spec: validation of an instance (sections 4.6 and 7). A value must
  have the declared type of its property, element by element for an array; a number in a
  Double, Long or Integer field must be finite; a nested instance is validated in turn.
  An abstract declaration is not instantiated; then the unexpected values and then the
  properties, in declaration order, are checked, and the first violation is the result.
  The flag of \<open>validateValue\<close> says whether an array is expected.
\<close>

fun validateValue :: "string \<Rightarrow> property \<Rightarrow> bool \<Rightarrow> instanceValue \<Rightarrow> error option"
  and validateElements :: "string \<Rightarrow> property \<Rightarrow> instanceValue list \<Rightarrow> error option"
  and validateFields :: "string \<Rightarrow> property list \<Rightarrow> (string \<times> instanceValue) list \<Rightarrow> (string \<times> error option) list"
  and validateInstance :: "instanceValue \<Rightarrow> error option" where
  "validateValue label p True (ArrayValue vs) = validateElements label p vs"
| "validateValue label p True v = Some (ModelViolation label (propName p) TypeMismatch)"
| "validateValue label p False (TypedValue d ident ts vals) =
     (if propKind p = Field \<and> assignableTo d (propType p)
      then validateInstance (TypedValue d ident ts vals)
      else Some (ModelViolation label (propName p) TypeMismatch))"
| "validateValue label p False (NumberValue n) =
     (if propKind p = Field \<and> propType p \<in> set [''Double'', ''Long'', ''Integer'']
      then (if isFinite n then None else Some (ModelViolation label (propName p) (NonFiniteNumber n)))
      else Some (ModelViolation label (propName p) TypeMismatch))"
| "validateValue label p False (StringValue s) =
     (if propKind p = Field \<and> propType p = ''String'' then None
      else Some (ModelViolation label (propName p) TypeMismatch))"
| "validateValue label p False (BooleanValue b) =
     (if propKind p = Field \<and> propType p = ''Boolean'' then None
      else Some (ModelViolation label (propName p) TypeMismatch))"
| "validateValue label p False (DateTimeValue t) =
     (if propKind p = Field \<and> propType p = ''DateTime'' then None
      else Some (ModelViolation label (propName p) TypeMismatch))"
| "validateValue label p False (EnumLiteral s) =
     (if propKind p = Field \<and> \<not> isPrimitiveType (propType p) then None
      else Some (ModelViolation label (propName p) TypeMismatch))"
| "validateValue label p False (RelationshipValue t i) =
     (if propKind p = Relationship then None
      else Some (ModelViolation label (propName p) TypeMismatch))"
| "validateValue label p False v = Some (ModelViolation label (propName p) TypeMismatch)"
| "validateElements label p [] = None"
| "validateElements label p (v # vs) =
     (case validateValue label p False v of Some e \<Rightarrow> Some e | None \<Rightarrow> validateElements label p vs)"
| "validateFields label props [] = []"
| "validateFields label props (nv # rest) =
     (fst nv, (case find (\<lambda>p. propName p = fst nv) props of
                 None \<Rightarrow> Some (ModelViolation label (fst nv) UnexpectedProperty)
               | Some p \<Rightarrow> validateValue label p (propIsArray p) (snd nv)))
     # validateFields label props rest"
| "validateInstance (TypedValue d ident ts vals) =
     (let label = instanceLabel d ident;
          verdicts = validateFields label (linkedProperties d) vals
      in if linkedIsAbstract d then Some (ModelViolation label [] AbstractInstance)
         else (case firstError (checkDeclared (linkedProperties d)) verdicts of
                 Some e \<Rightarrow> Some e
               | None \<Rightarrow> firstError (checkProperty label vals verdicts) (linkedProperties d)))"
| "validateInstance v = Some (Error ''Serializer.toJSON only accepts typed instances'')"

text \<open>
  Modelled from the spec: the entry emitted for one property; a property without a value
  is left out (section 4.6: missing properties are omitted).
\<close>

definition emitProperty ::
  "(string \<times> instanceValue) list \<Rightarrow> (string \<times> json) list \<Rightarrow> property \<Rightarrow> (string \<times> json) list" where
  "emitProperty vals emitted p =
     (case fieldValue vals (propName p) of
        None \<Rightarrow> []
      | Some v \<Rightarrow> (case map_of emitted (propName p) of
                    None \<Rightarrow> []
                  | Some j \<Rightarrow> [(propName p, j)]))"

text \<open>
  Modelled from the spec: emission (sections 4.6 and 6). Scalars become JSON scalars,
  arrays JSON arrays, a relationship the string \<^verbatim>\<open>resource:<fqn>#<id>\<close> with the
  identifier encoded by \<open>enc\<close>; an instance becomes an object with \<^verbatim>\<open>$class\<close> first,
  \<^verbatim>\<open>$identifier\<close> for the identifiable kinds, \<^verbatim>\<open>$timestamp\<close> for transactions and
  events, and then its properties in declaration order.
\<close>

fun emitValue :: "(string \<Rightarrow> string) \<Rightarrow> instanceValue \<Rightarrow> json"
  and emitElements :: "(string \<Rightarrow> string) \<Rightarrow> instanceValue list \<Rightarrow> json list"
  and emitFields :: "(string \<Rightarrow> string) \<Rightarrow> (string \<times> instanceValue) list \<Rightarrow> (string \<times> json) list" where
  "emitValue enc NullValue = JsonNull"
| "emitValue enc (StringValue s) = JsonString s"
| "emitValue enc (BooleanValue b) = JsonBoolean b"
| "emitValue enc (NumberValue n) = JsonNumber n"
| "emitValue enc (DateTimeValue t) = JsonString t"
| "emitValue enc (EnumLiteral s) = JsonString s"
| "emitValue enc (ArrayValue vs) = JsonArray (emitElements enc vs)"
| "emitValue enc (RelationshipValue t i) = JsonString (''resource:'' @ t @ ''#'' @ enc i)"
| "emitValue enc (TypedValue d ident ts vals) =
     JsonObject
       ([(''$class'', JsonString (linkedFqn d))]
        @ (case ident of
             None \<Rightarrow> []
           | Some i \<Rightarrow> if linkedKind d \<in> {Asset, Participant, Transaction, Event}
                       then [(''$identifier'', JsonString i)] else [])
        @ (case ts of
             None \<Rightarrow> []
           | Some t \<Rightarrow> if linkedKind d \<in> {Transaction, Event}
                       then [(''$timestamp'', JsonString t)] else [])
        @ concat (map (emitProperty vals (emitFields enc vals)) (linkedProperties d)))"
| "emitElements enc [] = []"
| "emitElements enc (v # vs) = emitValue enc v # emitElements enc vs"
| "emitFields enc [] = []"
| "emitFields enc (nv # rest) = (fst nv, emitValue enc (snd nv)) # emitFields enc rest"

text \<open>
  Modelled from the spec: the default options of a serializer (section 4.6).
\<close>

record serializerOptions =
  opt_validate :: bool
  opt_convertResourcesToRelationships :: bool
  opt_permitResourcesForRelationships :: bool
  opt_includeOptionalFields :: bool
  opt_utcOffset :: int

text \<open>
  Modelled from the spec: the options given to one call, or to \<^verbatim>\<open>setDefaultOptions\<close>;
  any key may be absent.
\<close>

record optionOverrides =
  set_validate :: "bool option"
  set_convertResourcesToRelationships :: "bool option"
  set_permitResourcesForRelationships :: "bool option"
  set_includeOptionalFields :: "bool option"
  set_utcOffset :: "int option"

text \<open>
  Modelled from the spec: section 9, a missing key inherits from the defaults and a
  present key overrides them whatever its value.
\<close>

definition orDefault :: "'a \<Rightarrow> 'a option \<Rightarrow> 'a" where
  "orDefault d v = (case v of None \<Rightarrow> d | Some x \<Rightarrow> x)"

text \<open>
  Modelled from the spec: the merge of per-call options over the defaults, key by key.
\<close>

definition mergeOptions :: "serializerOptions \<Rightarrow> optionOverrides \<Rightarrow> serializerOptions" where
  "mergeOptions defaults ov =
     \<lparr> opt_validate = orDefault (opt_validate defaults) (set_validate ov),
       opt_convertResourcesToRelationships =
         orDefault (opt_convertResourcesToRelationships defaults) (set_convertResourcesToRelationships ov),
       opt_permitResourcesForRelationships =
         orDefault (opt_permitResourcesForRelationships defaults) (set_permitResourcesForRelationships ov),
       opt_includeOptionalFields =
         orDefault (opt_includeOptionalFields defaults) (set_includeOptionalFields ov),
       opt_utcOffset = orDefault (opt_utcOffset defaults) (set_utcOffset ov) \<rparr>"

text \<open>
  Modelled from the spec: the options of a serializer nobody configured. Section 4.6
  fixes \<^verbatim>\<open>validate\<close> as on when unspecified; the other keys are off.
\<close>

definition baseDefaultOptions :: serializerOptions where
  "baseDefaultOptions =
     \<lparr> opt_validate = True, opt_convertResourcesToRelationships = False,
       opt_permitResourcesForRelationships = False, opt_includeOptionalFields = False,
       opt_utcOffset = 0 \<rparr>"

text \<open>
  Modelled from the spec: a call that gives no options.
\<close>

definition noOverrides :: optionOverrides where
  "noOverrides =
     \<lparr> set_validate = None, set_convertResourcesToRelationships = None,
       set_permitResourcesForRelationships = None, set_includeOptionalFields = None,
       set_utcOffset = None \<rparr>"

text \<open>
  Modelled from the spec: \<^verbatim>\<open>setDefaultOptions\<close>, the defaults of a configured serializer.
\<close>

definition setDefaultOptions :: "optionOverrides \<Rightarrow> serializerOptions" where
  "setDefaultOptions newDefaultOptions = mergeOptions baseDefaultOptions newDefaultOptions"

text \<open>
  Modelled from the spec: \<^verbatim>\<open>Serializer.toJSON\<close>. Sections 4.6 and 7: the per-call options
  override the defaults, validation runs first when requested, and nothing is emitted
  for an instance that fails it.
\<close>

definition toJSON ::
  "(string \<Rightarrow> string) \<Rightarrow> serializerOptions \<Rightarrow> instanceValue \<Rightarrow> optionOverrides \<Rightarrow> error + json" where
  "toJSON enc defaultOptions resource options =
     (let opts = mergeOptions defaultOptions options
      in case resource of
           TypedValue d ident ts vals \<Rightarrow>
             (if opt_validate opts
              then (case validateInstance resource of
                      Some e \<Rightarrow> Inl e
                    | None \<Rightarrow> Inr (emitValue enc resource))
              else Inr (emitValue enc resource))
         | _ \<Rightarrow> Inl (Error ''Serializer.toJSON only accepts typed instances''))"

section \<open>InstanceGenerator\<close>

text \<open>
  The instance generator (\<^verbatim>\<open>lib/serializer/instancegenerator.js\<close>) is not among the
  sources; only its tests are. Everything in this section follows section 4.7 of the
  specification.
\<close>

text \<open>
  Modelled from the spec: the two strategies of the value generator.
\<close>

datatype generatorStrategy = EmptyValues | SampleValues

text \<open>
  Modelled from the spec: the pluggable value generator: its strategy, the value it
  gives for a primitive type, and the synthetic identifier it gives.
\<close>

record valueGenerator =
  strategy :: generatorStrategy
  primitiveValue :: "string \<Rightarrow> instanceValue"
  syntheticIdentifier :: string

text \<open>
  Modelled from the spec: the concrete-subclass picker. A declaration that is not
  abstract is its own pick; for an abstract one the first non-abstract assignable
  declaration of the graph is taken, and there being none is an error.
\<close>

definition findConcreteSubclass :: "linkedDeclaration list \<Rightarrow> linkedDeclaration \<Rightarrow> error + linkedDeclaration" where
  "findConcreteSubclass graph declared =
     (if \<not> linkedIsAbstract declared then Inr declared
      else (case filter (\<lambda>d. \<not> linkedIsAbstract d \<and> assignableTo d (linkedFqn declared)) graph of
              [] \<Rightarrow> Inl (Error (''No concrete extending type for '' @ linkedFqn declared))
            | d # ds \<Rightarrow> Inr d))"

text \<open>
  Modelled from the spec: an array holds nothing under the empty strategy and a single
  generated element under the sample strategy.
\<close>

definition getArray :: "valueGenerator \<Rightarrow> error + instanceValue \<Rightarrow> error + instanceValue" where
  "getArray G element =
     (case strategy G of
        EmptyValues \<Rightarrow> Inr (ArrayValue [])
      | SampleValues \<Rightarrow> (case element of Inl e \<Rightarrow> Inl e | Inr v \<Rightarrow> Inr (ArrayValue [v])))"

text \<open>
  Modelled from the spec: an enum takes its first value.
\<close>

definition firstEnumValue :: "linkedDeclaration \<Rightarrow> error + instanceValue" where
  "firstEnumValue d =
     (case filter (\<lambda>p. propKind p = EnumValue) (linkedProperties d) of
        [] \<Rightarrow> Inl (Error (''No enum values in '' @ linkedFqn d))
      | p # ps \<Rightarrow> Inr (EnumLiteral (propName p)))"

text \<open>
  Modelled from the spec: the generated instance of a declaration, with a synthetic
  identifier for the identifiable kinds.
\<close>

definition newInstance :: "valueGenerator \<Rightarrow> linkedDeclaration \<Rightarrow> (string \<times> instanceValue) list \<Rightarrow> instanceValue" where
  "newInstance G d vals =
     TypedValue d
       (if linkedKind d \<in> {Asset, Participant, Transaction, Event} then Some (syntheticIdentifier G) else None)
       None vals"

text \<open>
  Modelled from the spec: the algorithm per property and the loop over the properties of
  a declaration. A relationship gets a synthetic identifier; a primitive asks the value
  generator; an enum takes its first value; an abstract declared type is replaced by the
  pick of the concrete-subclass picker. A declared type already on the \<open>seen\<close> list
  gives the empty array for an array field, null for an optional scalar field, and the
  model-is-recursive error for a required scalar field; otherwise the type joins a copy
  of \<open>seen\<close> and an instance of it is generated. Optional properties are visited only
  with \<^verbatim>\<open>includeOptionalFields\<close>.
\<close>

function (sequential)
  visitField :: "linkedDeclaration list \<Rightarrow> valueGenerator \<Rightarrow> bool \<Rightarrow> string list \<Rightarrow> property
                   \<Rightarrow> error + instanceValue"
  and generateProperties :: "linkedDeclaration list \<Rightarrow> valueGenerator \<Rightarrow> bool \<Rightarrow> string list
                   \<Rightarrow> property list \<Rightarrow> error + (string \<times> instanceValue) list" where
  "visitField graph G includeOptionalFields seen p =
     (if propKind p = Relationship then
        (let r = Inr (RelationshipValue (propType p) (syntheticIdentifier G))
         in if propIsArray p then getArray G r else r)
      else if isPrimitiveType (propType p) then
        (let v = Inr (primitiveValue G (propType p))
         in if propIsArray p then getArray G v else v)
      else
        (case find (\<lambda>d. linkedFqn d = propType p) graph of
           None \<Rightarrow> Inl (Error (''Type not found: '' @ propType p))
         | Some declared \<Rightarrow>
             if linkedKind declared = Enum then
               (if propIsArray p then getArray G (firstEnumValue declared) else firstEnumValue declared)
             else
               (case findConcreteSubclass graph declared of
                  Inl e \<Rightarrow> Inl e
                | Inr concrete \<Rightarrow>
                    if linkedFqn concrete \<in> set seen then
                      (if propIsArray p then Inr (ArrayValue [])
                       else if propIsOptional p then Inr NullValue
                       else Inl (Error ''Model is recursive.''))
                    else
                      (let element =
                             (case generateProperties graph G includeOptionalFields
                                     (seen @ [linkedFqn concrete]) (linkedProperties concrete) of
                                Inl e \<Rightarrow> Inl e
                              | Inr vals \<Rightarrow> Inr (newInstance G concrete vals))
                       in if propIsArray p then getArray G element else element))))"
| "generateProperties graph G includeOptionalFields seen [] = Inr []"
| "generateProperties graph G includeOptionalFields seen (p # ps) =
     (if \<not> includeOptionalFields \<and> propIsOptional p
      then generateProperties graph G includeOptionalFields seen ps
      else (case visitField graph G includeOptionalFields seen p of
              Inl e \<Rightarrow> Inl e
            | Inr v \<Rightarrow>
                (case generateProperties graph G includeOptionalFields seen ps of
                   Inl e \<Rightarrow> Inl e
                 | Inr vals \<Rightarrow> Inr ((propName p, v) # vals))))"
  by pat_completeness auto

termination
  apply (relation "measures
    [\<lambda>x. case x of
            Inl (graph, G, inc, seen, p) \<Rightarrow> card (linkedFqn ` set graph - set seen)
          | Inr (graph, G, inc, seen, ps) \<Rightarrow> card (linkedFqn ` set graph - set seen),
     \<lambda>x. case x of
            Inl (graph, G, inc, seen, p) \<Rightarrow> 0
          | Inr (graph, G, inc, seen, ps) \<Rightarrow> Suc (length ps)]")
  apply simp_all
proof -
  fix graph :: "linkedDeclaration list" and seen :: "string list" and p :: property
    and declared concrete :: linkedDeclaration
  assume found: "find (\<lambda>d. linkedFqn d = propType p) graph = Some declared"
    and picked: "findConcreteSubclass graph declared = Inr concrete"
    and fresh: "linkedFqn concrete \<notin> set seen"
  from found have "declared \<in> set graph"
    by (auto simp: find_Some_iff)
  moreover have "concrete \<in> set graph"
    if "filter (\<lambda>d. \<not> linkedIsAbstract d \<and> assignableTo d (linkedFqn declared)) graph = concrete # rest"
    for rest
  proof -
    have "concrete \<in> set (filter (\<lambda>d. \<not> linkedIsAbstract d \<and> assignableTo d (linkedFqn declared)) graph)"
      by (simp add: that)
    then show ?thesis by simp
  qed
  ultimately have "concrete \<in> set graph"
    using picked by (auto simp: findConcreteSubclass_def split: if_splits list.splits)
  then have "linkedFqn concrete \<in> linkedFqn ` set graph - set seen"
    using fresh by simp
  then have "linkedFqn ` set graph - insert (linkedFqn concrete) (set seen)
               \<subset> linkedFqn ` set graph - set seen"
    by auto
  then show "card (linkedFqn ` set graph - insert (linkedFqn concrete) (set seen))
               < card (linkedFqn ` set graph - set seen)"
    by (intro psubset_card_mono) auto
qed


text \<open>
  The equation of \<open>visitField\<close> is unfolded on demand only.
\<close>

declare visitField.simps [simp del]

section \<open>Concrete collaborators and model files\<close>

text \<open>
  The concrete runs below use a version test that accepts every range, a declaration
  validator that reports nothing, and a \<^verbatim>\<open>processFile\<close> that rejects every text.
\<close>

definition anyVersion :: "string \<Rightarrow> bool" where
  "anyVersion v = True"

definition noDeclarationErrors :: declValidator where
  "noDeclarationErrors mm mf d = None"

definition noParser :: fileProcessor where
  "noParser fname s = Inl (Error ''no parser'')"

definition concept :: "string \<Rightarrow> string option \<Rightarrow> astDeclaration" where
  "concept n st =
     \<lparr> thing_class = ''concerto.metamodel.ConceptDeclaration'', thing_name = n,
       thing_isAbstract = False, thing_superType = st \<rparr>"

definition fileOf :: "string \<Rightarrow> import list \<Rightarrow> astDeclaration list \<Rightarrow> modelFile" where
  "fileOf ns imps things =
     projr (newModelFile anyVersion
        \<lparr> ast_namespace = ns, ast_imports = Some imps, ast_declarations = Some things,
          ast_concertoVersion = None \<rparr> None None)"

definition rootManager :: modelManager where
  "rootManager = snd (newModelManager anyVersion noDeclarationErrors)"

definition rootFile :: modelFile where
  "rootFile = projr (newModelFile anyVersion rootModelAst (Some rootModelCto) (Some rootModelFile))"

definition acmeFile :: modelFile where
  "acmeFile = fileOf ''org.acme'' [] [concept ''Address'' None]"

definition acmeManager :: modelManager where
  "acmeManager = snd (addModelFile noDeclarationErrors rootManager acmeFile False)"

definition otherFile :: modelFile where
  "otherFile = fileOf ''org.other'' [ImportType ''org.acme'' ''Address'' None] [concept ''Place'' None]"

definition batchManager :: modelManager where
  "batchManager = snd (addModelFiles noParser anyVersion noDeclarationErrors rootManager
                         [ModelFileObject otherFile, ModelFileObject acmeFile] None False)"

definition clashFile :: modelFile where
  "clashFile = fileOf ''org.clash'' [ImportType ''org.acme'' ''Address'' None] [concept ''Address'' None]"

definition clashManager :: modelManager where
  "clashManager = snd (addModelFile noDeclarationErrors acmeManager clashFile False)"

definition prefixFile :: modelFile where
  "prefixFile = fileOf ''Acme'' [] [concept ''AcmeAddress'' None]"

definition prefixManager :: modelManager where
  "prefixManager = snd (addModelFile noDeclarationErrors rootManager prefixFile False)"

definition chainFile :: modelFile where
  "chainFile = fileOf ''org.chain'' []
     [concept ''Base'' None, concept ''Middle'' (Some ''Base''), concept ''Leaf'' (Some ''Middle'')]"

definition chainManager :: modelManager where
  "chainManager = snd (addModelFile noDeclarationErrors rootManager chainFile False)"

definition cycleFile :: modelFile where
  "cycleFile = fileOf ''org.cycle'' [] [concept ''Loop'' (Some ''Loop'')]"

definition cycleManager :: modelManager where
  "cycleManager = snd (addModelFile noDeclarationErrors rootManager cycleFile True)"

definition chainDeclaration :: "string \<Rightarrow> string option \<Rightarrow> classDeclaration" where
  "chainDeclaration n st =
     \<lparr> kind = Concept, modelFileNamespace = ''org.chain'', name = n, isAbstract = False,
       superType = st \<rparr>"

definition conceptOf :: "string \<Rightarrow> string \<Rightarrow> string option \<Rightarrow> classDeclaration" where
  "conceptOf ns n st =
     \<lparr> kind = Concept, modelFileNamespace = ns, name = n, isAbstract = False, superType = st \<rparr>"

definition wildFile :: modelFile where
  "wildFile = fileOf ''org.wild'' [ImportAll ''org.acme'' None] [concept ''Thing'' None]"

definition wildManager :: modelManager where
  "wildManager = snd (addModelFile noDeclarationErrors acmeManager wildFile False)"

text \<open>
  A file whose namespace is the name of a member of \<^verbatim>\<open>Object.prototype\<close>.
\<close>

definition toStringFile :: modelFile where
  "toStringFile = fileOf ''toString'' [] [concept ''Thing'' None]"

text \<open>
  The built-in \<^verbatim>\<open>RegExp\<close> of JavaScript for the concrete runs, on the fragment they
  use: a pattern of letters and digits (at least one), which matches literally, with no
  flags or the flags \<^verbatim>\<open>g\<close> (global) and \<^verbatim>\<open>y\<close> (sticky); and the pattern of a lone
  opening parenthesis, for which \<^verbatim>\<open>new RegExp\<close> throws a \<open>SyntaxError\<close>. Any other
  pattern or flag is outside the fragment, and the engine refuses it with a message of
  its own.
\<close>

record regExp =
  source :: string
  global :: bool
  sticky :: bool
  lastIndex :: nat

definition literalCharacters :: string where
  "literalCharacters =
     ''abcdefghijklmnopqrstuvwxyzABCDEFGHIJKLMNOPQRSTUVWXYZ0123456789''"

definition newLiteralRegExp :: "string \<Rightarrow> string option \<Rightarrow> string + regExp" where
  "newLiteralRegExp p f =
     (let fl = (case f of None \<Rightarrow> [] | Some s \<Rightarrow> s) in
      if fl \<notin> {[], ''g'', ''y'', ''gy'', ''yg''} then Inl ''flags outside the fragment''
      else if p = ''(''
      then Inl (''Invalid regular expression: /(/'' @ fl @ '': Unterminated group'')
      else if p \<noteq> [] \<and> (\<forall>c \<in> set p. c \<in> set literalCharacters)
      then Inr \<lparr> source = p, global = (CHR ''g'' \<in> set fl), sticky = (CHR ''y'' \<in> set fl),
                 lastIndex = 0 \<rparr>
      else Inl ''pattern outside the fragment'')"

text \<open>
  The value matches the pattern: the pattern occurs in it somewhere. \<open>firstMatch p s i\<close>
  is the index of the first occurrence of \<open>p\<close> in \<open>s\<close>, where \<open>s\<close> is the part of the value
  from index \<open>i\<close> on.
\<close>

fun containsText :: "string \<Rightarrow> string \<Rightarrow> bool" where
  "containsText p [] = (p = [])"
| "containsText p (c # cs) = (startsWith (c # cs) p \<or> containsText p cs)"

fun firstMatch :: "string \<Rightarrow> string \<Rightarrow> nat \<Rightarrow> nat option" where
  "firstMatch p [] i = (if p = [] then Some i else None)"
| "firstMatch p (c # cs) i = (if startsWith (c # cs) p then Some i else firstMatch p cs (Suc i))"

text \<open>
  \<^verbatim>\<open>RegExp.prototype.test\<close>, by \<^verbatim>\<open>RegExpBuiltinExec\<close> of ECMAScript. The search starts
  at \<^verbatim>\<open>lastIndex\<close> for a global or sticky expression and at 0 otherwise; a sticky
  expression tries that index only. A global or sticky expression stores the end of the
  match in \<^verbatim>\<open>lastIndex\<close> on success and 0 on failure; one with neither flag is left as it
  is.
\<close>

definition literalTest :: "regExp \<Rightarrow> string \<Rightarrow> bool \<times> regExp" where
  "literalTest r s =
     (let stateful = (global r \<or> sticky r);
          start = (if stateful then lastIndex r else 0);
          failure = (False, if stateful then r\<lparr> lastIndex := 0 \<rparr> else r);
          success = (\<lambda>i. (True, if stateful then r\<lparr> lastIndex := i + length (source r) \<rparr> else r))
      in if start > length s then failure
         else if sticky r
         then (if startsWith (drop start s) (source r) then success start else failure)
         else (case firstMatch (source r) (drop start s) start of
                 None \<Rightarrow> failure
               | Some i \<Rightarrow> success i))"

definition literalEngine :: "regExp regExpEngine" where
  "literalEngine =
     \<lparr> newRegExp = newLiteralRegExp,
       regExpTest = literalTest,
       regExpToString = (\<lambda>r. ''/'' @ source r @ ''/'' @ (if global r then ''g'' else [])
                                @ (if sticky r then ''y'' else [])) \<rparr>"

text \<open>
  The validator of \<^verbatim>\<open>String theValue regex=/foo/g\<close>, as the constructor leaves it and
  as it is after a successful \<^verbatim>\<open>validate\<close> of \<^verbatim>\<open>'foo'\<close>.
\<close>

definition fooValidator :: "nat \<Rightarrow> regExp stringValidator" where
  "fooValidator i =
     \<lparr> fieldName = ''theValue'', validator = \<lparr> pattern = ''foo'', flags = Some ''g'' \<rparr>,
       regex = \<lparr> source = ''foo'', global = True, sticky = False, lastIndex = i \<rparr> \<rparr>"

text \<open>
  The declarations and instances of the scenarios S1, S2, S3 and S6 of the specification.
\<close>

definition ownerProperty :: property where
  "ownerProperty =
     \<lparr> propName = ''owner'', propType = ''org.acme.sample.SampleParticipant'',
       propIsArray = False, propIsOptional = False, propKind = Relationship \<rparr>"

definition plainIdentifier :: "string \<Rightarrow> string" where
  "plainIdentifier i = i"

definition fieldOf :: "string \<Rightarrow> string \<Rightarrow> bool \<Rightarrow> bool \<Rightarrow> property" where
  "fieldOf t n arr opt =
     \<lparr> propName = n, propType = t, propIsArray = arr, propIsOptional = opt, propKind = Field \<rparr>"

definition sampleAsset :: linkedDeclaration where
  "sampleAsset =
     \<lparr> linkedFqn = ''org.acme.sample.SampleAsset'', linkedKind = Asset, linkedIsAbstract = False,
       linkedSuperTypes = [''concerto.Asset''],
       linkedProperties =
         [fieldOf ''String'' ''assetId'' False False,
          ownerProperty,
          fieldOf ''String'' ''stringValue'' False False,
          fieldOf ''Double'' ''doubleValue'' False False] \<rparr>"

definition bareAsset :: instanceValue where
  "bareAsset = TypedValue sampleAsset (Some ''1'') None [(''assetId'', StringValue ''1'')]"

definition fullAsset :: "number \<Rightarrow> instanceValue" where
  "fullAsset n =
     TypedValue sampleAsset (Some ''1'') None
       [(''assetId'', StringValue ''1''),
        (''owner'', RelationshipValue ''org.acme.sample.SampleParticipant'' ''alice@email.com''),
        (''stringValue'', StringValue ''the value''),
        (''doubleValue'', NumberValue n)]"

definition validateOnly :: "bool \<Rightarrow> optionOverrides" where
  "validateOnly v = noOverrides\<lparr> set_validate := Some v \<rparr>"

definition myAsset :: "bool \<Rightarrow> bool \<Rightarrow> linkedDeclaration" where
  "myAsset arr opt =
     \<lparr> linkedFqn = ''org.acme.test.MyAsset'', linkedKind = Asset, linkedIsAbstract = False,
       linkedSuperTypes = [''concerto.Asset''],
       linkedProperties =
         [fieldOf ''String'' ''assetId'' False False,
          fieldOf ''org.acme.test.MyAsset'' ''theValues'' arr opt] \<rparr>"

definition sampleGenerator :: valueGenerator where
  "sampleGenerator =
     \<lparr> strategy = SampleValues,
       primitiveValue = (\<lambda>t. if t = ''String'' then StringValue ''sample''
                              else if t = ''Boolean'' then BooleanValue True
                              else if t = ''DateTime'' then DateTimeValue ''1970-01-01T00:00:00.000Z''
                              else NumberValue (Finite 0)),
       syntheticIdentifier = ''0000'' \<rparr>"

section \<open>Reading the registry\<close>

lemma getModelFile_Undefined:
  "getModelFile mm ns = Undefined
     \<longleftrightarrow> map_of (modelFiles mm) ns = None \<and> ns \<notin> set objectPrototypeMembers"
  by (simp add: getModelFile_def split: option.splits)

lemma getModelFile_OwnFile:
  "getModelFile mm ns = OwnFile mf \<longleftrightarrow> map_of (modelFiles mm) ns = Some mf"
  by (simp add: getModelFile_def split: option.splits)

lemma map_of_keys: "map_of xs k = None \<longleftrightarrow> k \<notin> set (map fst xs)"
  by (simp add: map_of_eq_None_iff)

section \<open>Adding and deleting a namespace\<close>

lemma map_of_update_new:
  "map_of xs k = None \<Longrightarrow> AList.delete k (AList.update k v xs) = xs"
  by (induction xs) (auto split: if_splits)

text \<open>
  For a namespace that is not the name of a member of \<^verbatim>\<open>Object.prototype\<close> the three
  parts of claim C8 hold: adding a model file whose namespace is not among the registered
  namespaces and then deleting that namespace gives back the registry as it was;
  \<^verbatim>\<open>deleteModelFile\<close> on an absent namespace throws and changes nothing; \<^verbatim>\<open>addModelFile\<close>
  on a registered namespace throws the \<open>Error\<close> of \<^verbatim>\<open>_throwAlreadyExists\<close> and changes
  nothing.
\<close>

lemma add_then_delete_ordinary_namespace:
  "(getNamespaceOf mf \<notin> set objectPrototypeMembers
      \<and> getNamespaceOf mf \<notin> set (getNamespaces mm)
      \<and> addModelFile V mm mf dv = (Inr r, mm1)
      \<longrightarrow> deleteModelFile mm1 (getNamespaceOf mf) = (Inr (), mm))
   \<and> (ns \<notin> set objectPrototypeMembers \<and> ns \<notin> set (getNamespaces mm)
      \<longrightarrow> deleteModelFile mm ns = (Inl (Error ''Model file does not exist''), mm))
   \<and> (getNamespaceOf mf \<in> set (getNamespaces mm)
      \<longrightarrow> (\<exists>message. addModelFile V mm mf dv = (Inl (Error message), mm)))"
proof (intro conjI impI)
  assume h: "getNamespaceOf mf \<notin> set objectPrototypeMembers
      \<and> getNamespaceOf mf \<notin> set (getNamespaces mm)
      \<and> addModelFile V mm mf dv = (Inr r, mm1)"
  then have none: "map_of (modelFiles mm) (getNamespaceOf mf) = None"
    by (simp add: getNamespaces_def map_of_keys)
  from h have mm1: "mm1 = mm\<lparr> modelFiles := AList.update (getNamespaceOf mf) mf (modelFiles mm) \<rparr>"
    by (auto simp: addModelFile_def split: registryEntry.splits option.splits if_splits)
  show "deleteModelFile mm1 (getNamespaceOf mf) = (Inr (), mm)"
    using none by (simp add: mm1 deleteModelFile_def getModelFile_def update_conv' map_of_update_new)
next
  assume "ns \<notin> set objectPrototypeMembers \<and> ns \<notin> set (getNamespaces mm)"
  then have "getModelFile mm ns = Undefined"
    by (simp add: getModelFile_Undefined getNamespaces_def map_of_keys)
  then show "deleteModelFile mm ns = (Inl (Error ''Model file does not exist''), mm)"
    by (simp add: deleteModelFile_def)
next
  assume "getNamespaceOf mf \<in> set (getNamespaces mm)"
  then obtain ex where "map_of (modelFiles mm) (getNamespaceOf mf) = Some ex"
    using map_of_keys[of "modelFiles mm" "getNamespaceOf mf"]
    by (auto simp: getNamespaces_def)
  then have own: "getModelFile mm (getNamespaceOf mf) = OwnFile ex"
    by (simp add: getModelFile_OwnFile)
  then show "\<exists>message. addModelFile V mm mf dv = (Inl (Error message), mm)"
    by (simp add: addModelFile_def throwAlreadyExists_def Let_def)
qed

text \<open>
  Claim C8. Adding a model file whose namespace is not registered and then deleting that
  namespace should give back the namespace set; \<^verbatim>\<open>deleteModelFile\<close> on an absent
  namespace should throw and change nothing; \<^verbatim>\<open>addModelFile\<close> on a registered namespace
  should throw the already-declared error. The registry is a plain object, and both
  functions test \<^verbatim>\<open>this.modelFiles[ns]\<close>, which is truthy for the name of a member of
  \<^verbatim>\<open>Object.prototype\<close>. In the manager that holds the root model only, neither
  \<^verbatim>\<open>constructor\<close> nor \<^verbatim>\<open>toString\<close> is a registered namespace, yet
  \<^verbatim>\<open>deleteModelFile('constructor')\<close> returns without an error, and \<^verbatim>\<open>addModelFile\<close>
  of a valid model file with the namespace \<^verbatim>\<open>toString\<close> does not register it: it throws
  a \<open>TypeError\<close> from \<^verbatim>\<open>_throwAlreadyExists\<close>.
\<close>

theorem prototype_namespace_add_delete:
  "getNamespaces rootManager = [''concerto'']
   \<and> getModelFile rootManager ''constructor'' = Inherited ''constructor''
   \<and> deleteModelFile rootManager ''constructor'' = (Inr (), rootManager)
   \<and> getNamespaceOf toStringFile = ''toString''
   \<and> validate noDeclarationErrors rootManager toStringFile = None
   \<and> addModelFile noDeclarationErrors rootManager toStringFile False
       = (Inl (TypeError ''this.modelFiles[...].getName is not a function''), rootManager)"
  by code_simp

section \<open>Batch add\<close>

lemma update_new_append:
  "map_of xs k = None \<Longrightarrow> AList.update k v xs = xs @ [(k, v)]"
  by (induction xs) (auto split: if_splits)

lemma addModelFilesLoop_ok:
  "addModelFilesLoop P S fns mm n xs acc = (Inr ms, mm') \<Longrightarrow>
     \<exists>new. ms = acc @ new
        \<and> modelFiles mm' = modelFiles mm @ map (\<lambda>m. (getNamespaceOf m, m)) new
        \<and> length new = length xs
        \<and> (\<forall>i < length xs. inputModelFile P S (fileNameAt fns (n + i)) (xs ! i) = Inr (new ! i))
        \<and> distinct (map getNamespaceOf new)
        \<and> (\<forall>m \<in> set new. map_of (modelFiles mm) (getNamespaceOf m) = None
                           \<and> getNamespaceOf m \<notin> set objectPrototypeMembers)"
proof (induction xs arbitrary: mm n acc)
  case Nil
  then show ?case by simp
next
  case (Cons x xs)
  from Cons.prems obtain m where
    m: "inputModelFile P S (fileNameAt fns n) x = Inr m"
    and fresh: "getModelFile mm (getNamespaceOf m) = Undefined"
    and rest: "addModelFilesLoop P S fns
                 (mm\<lparr> modelFiles := AList.update (getNamespaceOf m) m (modelFiles mm) \<rparr>)
                 (Suc n) xs (acc @ [m]) = (Inr ms, mm')"
    by (auto split: sum.splits registryEntry.splits)
  from fresh have none: "map_of (modelFiles mm) (getNamespaceOf m) = None"
    and ordinary: "getNamespaceOf m \<notin> set objectPrototypeMembers"
    by (simp_all add: getModelFile_Undefined)
  from Cons.IH[OF rest] obtain new where
    ms: "ms = (acc @ [m]) @ new"
    and mf: "modelFiles mm' = (modelFiles mm @ [(getNamespaceOf m, m)]) @ map (\<lambda>m. (getNamespaceOf m, m)) new"
    and len: "length new = length xs"
    and ith: "\<forall>i < length xs. inputModelFile P S (fileNameAt fns (Suc n + i)) (xs ! i) = Inr (new ! i)"
    and dist: "distinct (map getNamespaceOf new)"
    and notin: "\<forall>m' \<in> set new. map_of (modelFiles mm @ [(getNamespaceOf m, m)]) (getNamespaceOf m') = None"
    and ord: "\<forall>m' \<in> set new. getNamespaceOf m' \<notin> set objectPrototypeMembers"
    by (auto simp: update_new_append[OF none])
  have ne: "\<forall>m' \<in> set new. getNamespaceOf m' \<noteq> getNamespaceOf m"
    using notin by (auto simp: map_add_def split: option.splits if_splits)
  have old: "\<forall>m' \<in> set new. map_of (modelFiles mm) (getNamespaceOf m') = None"
    using notin by (auto simp: map_add_def split: option.splits if_splits)
  show ?case
  proof (intro exI[of _ "m # new"] conjI)
    show "ms = acc @ m # new" using ms by simp
    show "modelFiles mm' = modelFiles mm @ map (\<lambda>m. (getNamespaceOf m, m)) (m # new)"
      using mf by simp
    show "length (m # new) = length (x # xs)" using len by simp
    show "\<forall>i<length (x # xs). inputModelFile P S (fileNameAt fns (n + i)) ((x # xs) ! i) = Inr ((m # new) ! i)"
    proof (intro allI impI)
      fix i assume "i < length (x # xs)"
      then show "inputModelFile P S (fileNameAt fns (n + i)) ((x # xs) ! i) = Inr ((m # new) ! i)"
        using m ith by (cases i) auto
    qed
    show "distinct (map getNamespaceOf (m # new))" using dist ne by auto
    show "\<forall>m\<in>set (m # new). map_of (modelFiles mm) (getNamespaceOf m) = None
                               \<and> getNamespaceOf m \<notin> set objectPrototypeMembers"
      using none old ordinary ord by auto
  qed
qed

lemma addModelFilesLoop_fail_keeps_record:
  "addModelFilesLoop P S fns mm n xs acc = (r, mm') \<Longrightarrow> mm'\<lparr> modelFiles := modelFiles mm \<rparr> = mm"
  by (induction xs arbitrary: mm n acc) (auto split: sum.splits registryEntry.splits)

lemma map_of_append_new:
  "distinct (map fst ys) \<Longrightarrow> (k, v) \<in> set ys \<Longrightarrow> \<forall>(k', v') \<in> set ys. map_of xs k' = None
     \<Longrightarrow> map_of (xs @ ys) k = Some v"
  by (auto simp: map_add_def split: option.splits)

text \<open>
  Claim C2. Batch add is all-or-nothing. Whatever makes the batch fail (an input that
  cannot be turned into a model file, a namespace that is already registered or occurs
  twice in the batch, a validation failure at the end), the exception is the result and
  the manager is left exactly as it was before the call. When no failure occurs the
  result lists one model file per input, in order, each of them registered under its
  namespace (which was not registered before), after the files that were there, and with
  validation enabled the whole registry has validated.
\<close>

theorem addModelFiles_all_or_nothing:
  assumes run: "addModelFiles P S V mm inputs fns dv = (res, mm')"
  shows "(isl res \<longrightarrow> mm' = mm)
   \<and> (\<forall>ms. res = Inr ms \<longrightarrow>
         length ms = length inputs
       \<and> (\<forall>i < length inputs. inputModelFile P S (fileNameAt fns i) (inputs ! i) = Inr (ms ! i)
              \<and> getModelFile mm' (getNamespaceOf (ms ! i)) = OwnFile (ms ! i)
              \<and> getModelFile mm (getNamespaceOf (ms ! i)) = Undefined)
       \<and> modelFiles mm' = modelFiles mm @ map (\<lambda>m. (getNamespaceOf m, m)) ms
       \<and> (\<not> dv \<longrightarrow> validateModelFiles V mm' = None))"
proof -
  have rollback: "isl res \<longrightarrow> mm' = mm"
    using run addModelFilesLoop_fail_keeps_record[of P S fns mm 0 inputs "[]"]
    by (auto simp: addModelFiles_def Let_def split: prod.splits sum.splits option.splits if_splits)
  have installed:
    "length ms = length inputs
       \<and> (\<forall>i < length inputs. inputModelFile P S (fileNameAt fns i) (inputs ! i) = Inr (ms ! i)
              \<and> getModelFile mm' (getNamespaceOf (ms ! i)) = OwnFile (ms ! i)
              \<and> getModelFile mm (getNamespaceOf (ms ! i)) = Undefined)
       \<and> modelFiles mm' = modelFiles mm @ map (\<lambda>m. (getNamespaceOf m, m)) ms
       \<and> (\<not> dv \<longrightarrow> validateModelFiles V mm' = None)" if res: "res = Inr ms" for ms
  proof -
    from run res have loop: "addModelFilesLoop P S fns mm 0 inputs [] = (Inr ms, mm')"
      and val: "\<not> dv \<longrightarrow> validateModelFiles V mm' = None"
      by (auto simp: addModelFiles_def Let_def split: prod.splits sum.splits option.splits if_splits)
    from addModelFilesLoop_ok[OF loop] have
      mf: "modelFiles mm' = modelFiles mm @ map (\<lambda>m. (getNamespaceOf m, m)) ms"
      and len: "length ms = length inputs"
      and ith: "\<forall>i < length inputs. inputModelFile P S (fileNameAt fns i) (inputs ! i) = Inr (ms ! i)"
      and dist: "distinct (map getNamespaceOf ms)"
      and fresh: "\<forall>m \<in> set ms. map_of (modelFiles mm) (getNamespaceOf m) = None"
      and ord: "\<forall>m \<in> set ms. getNamespaceOf m \<notin> set objectPrototypeMembers"
      by auto
    have each: "getModelFile mm' (getNamespaceOf (ms ! i)) = OwnFile (ms ! i)
                \<and> getModelFile mm (getNamespaceOf (ms ! i)) = Undefined" if i: "i < length inputs" for i
    proof -
      from i have mem: "ms ! i \<in> set ms" using len by simp
      have "map_of (modelFiles mm @ map (\<lambda>m. (getNamespaceOf m, m)) ms) (getNamespaceOf (ms ! i)) = Some (ms ! i)"
      proof (rule map_of_append_new)
        show "distinct (map fst (map (\<lambda>m. (getNamespaceOf m, m)) ms))"
          using dist by (simp add: comp_def)
        show "(getNamespaceOf (ms ! i), ms ! i) \<in> set (map (\<lambda>m. (getNamespaceOf m, m)) ms)"
          using mem by auto
        show "\<forall>(k', v')\<in>set (map (\<lambda>m. (getNamespaceOf m, m)) ms). map_of (modelFiles mm) k' = None"
          using fresh by auto
      qed
      then show ?thesis using fresh ord mem
        by (simp add: getModelFile_OwnFile getModelFile_Undefined mf)
    qed
    show ?thesis using len mf val ith each by simp
  qed
  show ?thesis using rollback installed by blast
qed


theorem addModelFiles_all_or_nothing_witness:
  "fst (addModelFiles noParser anyVersion noDeclarationErrors rootManager
          [ModelFileObject otherFile, ModelFileObject acmeFile] None False) = Inr [otherFile, acmeFile]
   \<and> getModelFile batchManager ''org.other'' = OwnFile otherFile
   \<and> getModelFile batchManager ''org.acme'' = OwnFile acmeFile
   \<and> getNamespaces batchManager = [''concerto'', ''org.other'', ''org.acme'']
   \<and> isl (fst (addModelFiles noParser anyVersion noDeclarationErrors rootManager
          [ModelFileObject acmeFile, ModelFileObject acmeFile] None False))
   \<and> snd (addModelFiles noParser anyVersion noDeclarationErrors rootManager
          [ModelFileObject acmeFile, ModelFileObject acmeFile] None False) = rootManager
   \<and> fst (addModelFiles noParser anyVersion noDeclarationErrors rootManager
          [ModelFileObject otherFile] None False)
       = Inl (IllegalModelException ''modelmanager-gettype-noregisteredns'' ''org.acme.Address'')
   \<and> snd (addModelFiles noParser anyVersion noDeclarationErrors rootManager
          [ModelFileObject otherFile] None False) = rootManager"
proof -
  let ?good = "addModelFiles noParser anyVersion noDeclarationErrors rootManager
          [ModelFileObject otherFile, ModelFileObject acmeFile] None False"
  let ?dup = "addModelFiles noParser anyVersion noDeclarationErrors rootManager
          [ModelFileObject acmeFile, ModelFileObject acmeFile] None False"
  let ?bad = "addModelFiles noParser anyVersion noDeclarationErrors rootManager
          [ModelFileObject otherFile] None False"
  have good: "?good = (Inr [otherFile, acmeFile], batchManager)"
    by (simp add: batchManager_def prod_eq_iff) code_simp
  have dup: "isl (fst ?dup)" by code_simp
  have bad: "fst ?bad = Inl (IllegalModelException ''modelmanager-gettype-noregisteredns'' ''org.acme.Address'')"
    by code_simp
  have ns: "getNamespaceOf otherFile = ''org.other''" "getNamespaceOf acmeFile = ''org.acme''"
    "getNamespaces rootManager = [''concerto'']"
    by code_simp+
  note t = addModelFiles_all_or_nothing[OF good]
  have each: "getModelFile batchManager (getNamespaceOf ([otherFile, acmeFile] ! i)) = OwnFile ([otherFile, acmeFile] ! i)"
    if "i < 2" for i
    using t that by simp
  have reg: "modelFiles batchManager = modelFiles rootManager
            @ map (\<lambda>m. (getNamespaceOf m, m)) [otherFile, acmeFile]"
    using t by simp
  have g: "getModelFile batchManager (getNamespaceOf otherFile) = OwnFile otherFile
       \<and> getModelFile batchManager (getNamespaceOf acmeFile) = OwnFile acmeFile"
    using each[of 0] each[of 1] by simp
  have d: "snd ?dup = rootManager"
    using addModelFiles_all_or_nothing[OF prod.collapse[symmetric], of noParser anyVersion
        noDeclarationErrors rootManager "[ModelFileObject acmeFile, ModelFileObject acmeFile]" None False]
      dup by blast
  have "isl (fst ?bad)" by (simp add: bad)
  then have e: "snd ?bad = rootManager"
    using addModelFiles_all_or_nothing[OF prod.collapse[symmetric], of noParser anyVersion
        noDeclarationErrors rootManager "[ModelFileObject otherFile]" None False]
    by blast
  have keys: "getNamespaces batchManager = [''concerto'', ''org.other'', ''org.acme'']"
    using reg ns by (simp add: getNamespaces_def)
  show ?thesis using good g d e dup bad ns keys by simp
qed

section \<open>The root model in the views of the registry\<close>

lemma newModelFile_namespace:
  "newModelFile S a defs fname = Inr m \<Longrightarrow> namespace m = ast_namespace a"
  by (auto simp: newModelFile_def Let_def split: sum.splits option.splits if_splits)

lemma getModelFilesLoop_acc:
  "getModelFilesLoop mm inc keys (acc @ ys) = acc @ getModelFilesLoop mm inc keys ys"
  by (induction keys arbitrary: ys) (auto split: registryEntry.splits)

lemma getModelFilesLoop_single:
  "getModelFilesLoop mm inc keys [x] = x # getModelFilesLoop mm inc keys []"
  using getModelFilesLoop_acc[of mm inc keys "[x]" "[]"] by simp

lemma getModelFilesLoop_concat:
  "getModelFilesLoop mm inc keys [] =
     concat (map (\<lambda>ns. if inc \<or> ns \<noteq> ''concerto''
                         then (case getModelFile mm ns of OwnFile mf \<Rightarrow> [mf] | _ \<Rightarrow> [])
                         else []) keys)"
proof (cases inc)
  case True
  have "getModelFilesLoop mm True keys [] =
          concat (map (\<lambda>ns. case getModelFile mm ns of OwnFile mf \<Rightarrow> [mf] | _ \<Rightarrow> []) keys)"
    by (induction keys) (simp_all add: getModelFilesLoop_single split: registryEntry.splits)
  with True show ?thesis by simp
next
  case False
  have "getModelFilesLoop mm False keys [] =
          concat (map (\<lambda>ns. if ns \<noteq> ''concerto''
                         then (case getModelFile mm ns of OwnFile mf \<Rightarrow> [mf] | _ \<Rightarrow> [])
                         else []) keys)"
    by (induction keys) (simp_all add: getModelFilesLoop_single split: registryEntry.splits)
  with False show ?thesis by simp
qed

lemma getModelFilesLoop_set:
  "set (getModelFilesLoop mm inc keys []) =
     {mf. \<exists>ns \<in> set keys. (inc \<or> ns \<noteq> ''concerto'') \<and> getModelFile mm ns = OwnFile mf}"
  unfolding getModelFilesLoop_concat by (auto split: registryEntry.splits if_splits)

lemma getModelFiles_set:
  "set (getModelFiles mm inc) =
     {mf. \<exists>ns. (inc \<or> ns \<noteq> ''concerto'') \<and> getModelFile mm ns = OwnFile mf}"
proof -
  have "ns \<in> set (getNamespaces mm)" if "getModelFile mm ns = OwnFile mf" for ns mf
    using that map_of_SomeD[of "modelFiles mm" ns mf]
    by (force simp: getModelFile_OwnFile getNamespaces_def)
  then show ?thesis
    unfolding getModelFiles_def getModelFilesLoop_set by blast
qed

lemma keys_update_mono:
  "k \<in> set (map fst xs) \<Longrightarrow> k \<in> set (map fst (AList.update k' v xs))"
  by (simp add: update_keys)

lemma keys_delete_other:
  "k \<in> set (map fst xs) \<Longrightarrow> k \<noteq> k' \<Longrightarrow> k \<in> set (map fst (AList.delete k' xs))"
  by (induction xs) auto

lemma addModelFilesLoop_keys:
  "addModelFilesLoop P S fns mm n xs acc = (r, mm') \<Longrightarrow> k \<in> set (getNamespaces mm)
     \<Longrightarrow> k \<in> set (getNamespaces mm')"
proof (induction xs arbitrary: mm n acc)
  case Nil
  then show ?case by simp
next
  case (Cons x xs)
  show ?case
  proof (cases "inputModelFile P S (fileNameAt fns n) x")
    case (Inl e)
    with Cons.prems show ?thesis by simp
  next
    case (Inr m)
    show ?thesis
    proof (cases "getModelFile mm (getNamespaceOf m)")
      case (OwnFile ex)
      with Inr Cons.prems show ?thesis by simp
    next
      case (Inherited member)
      with Inr Cons.prems show ?thesis by simp
    next
      case Undefined
      let ?mm = "mm\<lparr> modelFiles := AList.update (getNamespaceOf m) m (modelFiles mm) \<rparr>"
      from Cons.prems(1) Inr Undefined
      have rest: "addModelFilesLoop P S fns ?mm (Suc n) xs (acc @ [m]) = (r, mm')" by simp
      have "k \<in> set (getNamespaces ?mm)"
        using Cons.prems(2) keys_update_mono[of k "modelFiles mm"] by (simp add: getNamespaces_def)
      from Cons.IH[OF rest this] show ?thesis .
    qed
  qed
qed

text \<open>
  Claim C10, as amended. In every state of the manager, \<^verbatim>\<open>getModelFiles()\<close> without
  its argument returns exactly the files registered under a namespace other than
  \<^verbatim>\<open>concerto\<close>, and \<^verbatim>\<open>getAst()\<close> and \<^verbatim>\<open>getModels()\<close> are built from that list.
  \<^verbatim>\<open>getNamespaces()\<close> is exactly \<^verbatim>\<open>concerto\<close> in the state the constructor and
  \<^verbatim>\<open>clearModelFiles\<close> leave, and keeps containing \<^verbatim>\<open>concerto\<close> through
  \<^verbatim>\<open>addModelFile\<close>, \<^verbatim>\<open>addModelFiles\<close> and the deletion of any other namespace.
\<close>

theorem root_model_views:
  "set (getModelFiles mm False) = {mf. \<exists>ns. ns \<noteq> ''concerto'' \<and> getModelFile mm ns = OwnFile mf}
   \<and> getAst R mm False = map ast (getModelFiles mm False)
   \<and> map snd (getModels B mm True) = map definitions (getModelFiles mm False)
   \<and> (newModelManager S V = (Inr u, mm0) \<longrightarrow> getNamespaces mm0 = [''concerto''])
   \<and> (clearModelFiles S V mm = (Inr u, mm1) \<longrightarrow> getNamespaces mm1 = [''concerto''])
   \<and> (''concerto'' \<in> set (getNamespaces mm) \<longrightarrow>
         ''concerto'' \<in> set (getNamespaces (snd (addModelFile V mm mf dv)))
       \<and> ''concerto'' \<in> set (getNamespaces (snd (addModelFiles P S V mm inputs fns dv)))
       \<and> (ns \<noteq> ''concerto'' \<longrightarrow> ''concerto'' \<in> set (getNamespaces (snd (deleteModelFile mm ns)))))"
proof -
  have views: "set (getModelFiles mm False) = {mf. \<exists>ns. ns \<noteq> ''concerto'' \<and> getModelFile mm ns = OwnFile mf}"
    by (simp add: getModelFiles_set)
  have asts: "getAst R mm False = map ast (getModelFiles mm False)"
    by (simp add: getAst_def)
  have models: "map snd (getModels B mm True) = map definitions (getModelFiles mm False)"
    by (simp add: getModels_def comp_def)
  have root: "getNamespaces m' = [''concerto'']" if "addRootModel S V \<lparr> modelFiles = [] \<rparr> = (Inr u, m')" for m'
    using that newModelFile_namespace[of S rootModelAst "Some rootModelCto" "Some rootModelFile"]
    by (auto simp: addRootModel_def addModelFile_def getModelFile_def getNamespaces_def
          getNamespaceOf_def rootModelAst_def
          split: sum.splits option.splits registryEntry.splits prod.splits if_splits)
  have new: "newModelManager S V = (Inr u, mm0) \<longrightarrow> getNamespaces mm0 = [''concerto'']"
    using root by (simp add: newModelManager_def)
  have clear: "clearModelFiles S V mm = (Inr u, mm1) \<longrightarrow> getNamespaces mm1 = [''concerto'']"
    using root[of mm1] by (cases mm) (simp add: clearModelFiles_def)
  have add1: "''concerto'' \<in> set (getNamespaces (snd (addModelFile V mm mf dv)))"
    if "''concerto'' \<in> set (getNamespaces mm)"
    using that keys_update_mono[of "''concerto''" "modelFiles mm" "getNamespaceOf mf" mf]
    by (simp add: addModelFile_def getNamespaces_def split: option.splits registryEntry.splits)
  have addn: "''concerto'' \<in> set (getNamespaces (snd (addModelFiles P S V mm inputs fns dv)))"
    if "''concerto'' \<in> set (getNamespaces mm)"
  proof (cases "addModelFilesLoop P S fns mm 0 inputs []")
    case (Pair r m1)
    from addModelFilesLoop_keys[OF Pair that] that show ?thesis
      by (auto simp: addModelFiles_def Let_def Pair getNamespaces_def split: sum.splits option.splits)
  qed
  have del: "''concerto'' \<in> set (getNamespaces (snd (deleteModelFile mm ns)))"
    if "''concerto'' \<in> set (getNamespaces mm)" "ns \<noteq> ''concerto''"
    using that keys_delete_other[of "''concerto''" "modelFiles mm" ns]
    by (simp add: deleteModelFile_def getNamespaces_def split: registryEntry.splits)
  show ?thesis using views asts models new clear add1 addn del by blast
qed


theorem root_model_views_witness:
  "set (getModelFiles acmeManager False) = {acmeFile}
   \<and> getAst (\<lambda>prior a. a) acmeManager False = [ast acmeFile]
   \<and> map snd (getModels (\<lambda>f. f) acmeManager True) = [None]
   \<and> newModelManager anyVersion noDeclarationErrors = (Inr (), rootManager)
   \<and> getNamespaces rootManager = [''concerto'']
   \<and> clearModelFiles anyVersion noDeclarationErrors acmeManager = (Inr (), rootManager)
   \<and> ''concerto'' \<in> set (getNamespaces acmeManager)
   \<and> ''concerto'' \<in> set (getNamespaces (snd (addModelFile noDeclarationErrors acmeManager otherFile False)))
   \<and> ''concerto'' \<in> set (getNamespaces (snd (addModelFiles noParser anyVersion noDeclarationErrors
          acmeManager [ModelFileObject otherFile] None False)))
   \<and> ''concerto'' \<in> set (getNamespaces (snd (deleteModelFile acmeManager ''org.acme'')))"
proof -
  have new: "newModelManager anyVersion noDeclarationErrors = (Inr (), rootManager)"
    by (simp add: rootManager_def prod_eq_iff) code_simp
  have clear: "clearModelFiles anyVersion noDeclarationErrors acmeManager = (Inr (), rootManager)"
    by (simp add: prod_eq_iff) code_simp
  have has: "''concerto'' \<in> set (getNamespaces acmeManager)" by code_simp
  have files: "getModelFiles acmeManager False = [acmeFile]" by code_simp
  have ne: "''org.acme'' \<noteq> ''concerto''" by simp
  have defs: "definitions acmeFile = None" by code_simp
  note v = root_model_views[of acmeManager "\<lambda>prior a. a" "\<lambda>f. f" anyVersion noDeclarationErrors
      "()" rootManager rootManager otherFile False noParser "[ModelFileObject otherFile]" None "''org.acme''"]
  show ?thesis using v new clear has ne files defs by simp
qed

text \<open>
  The claim as stated fails: nothing stops \<^verbatim>\<open>deleteModelFile('concerto')\<close>, after which
  \<^verbatim>\<open>getNamespaces()\<close> no longer lists the root namespace.
\<close>

theorem root_namespace_deleted_counterexample:
  "fst (deleteModelFile rootManager ''concerto'') = Inr ()
   \<and> ''concerto'' \<notin> set (getNamespaces (snd (deleteModelFile rootManager ''concerto'')))"
  by code_simp

section \<open>derivesFrom and the supertype chain\<close>

lemma derivesFromLoop_chain:
  "superChain superOf d ds \<Longrightarrow>
     derivesFromLoop superOf b (Some d) = Some (b \<in> set (map getFullyQualifiedName ds))"
proof (induction rule: superChain.induct)
  case (top d)
  then show ?case
    by (subst derivesFromLoop.simps, simp, subst derivesFromLoop.simps, auto)
next
  case (up d d' ds)
  then show ?case
    by (subst derivesFromLoop.simps) auto
qed

lemma derivesFromLoop_diverges:
  assumes closed: "\<forall>x\<in>C. \<exists>y\<in>C. superOf x = Some y"
    and nob: "\<forall>x\<in>C. getFullyQualifiedName x \<noteq> b"
    and start: "d \<in> C"
  shows "derivesFromLoop superOf b (Some d) = None"
proof -
  have away: "s = superOf \<longrightarrow> q = b \<longrightarrow> (\<forall>x. t = Some x \<longrightarrow> x \<notin> C)"
    if run: "derivesFromLoop s q t = Some r" for s q t r
  proof (rule derivesFromLoop.raw_induct
      [where P = "\<lambda>s q t r. s = superOf \<longrightarrow> q = b \<longrightarrow> (\<forall>x. t = Some x \<longrightarrow> x \<notin> C)", OF _ run])
    fix f s q t r
    assume ih: "\<And>s q t r. f s q t = Some r \<Longrightarrow> s = superOf \<longrightarrow> q = b \<longrightarrow> (\<forall>x. t = Some x \<longrightarrow> x \<notin> C)"
      and body: "(case t of None \<Rightarrow> Some False
                  | Some d \<Rightarrow> if getFullyQualifiedName d = q then Some True else f s q (s d)) = Some r"
    show "s = superOf \<longrightarrow> q = b \<longrightarrow> (\<forall>x. t = Some x \<longrightarrow> x \<notin> C)"
    proof (intro impI allI)
      fix x assume s: "s = superOf" and q: "q = b" and t: "t = Some x"
      show "x \<notin> C"
      proof
        assume x: "x \<in> C"
        with closed obtain y where y: "y \<in> C" "superOf x = Some y" by blast
        from x nob have "getFullyQualifiedName x \<noteq> b" by blast
        with body s q t y have "f superOf b (Some y) = Some r" by simp
        from ih[OF this] y show False by simp
      qed
    qed
  qed
  show ?thesis
  proof (cases "derivesFromLoop superOf b (Some d)")
    case None then show ?thesis .
  next
    case (Some r)
    from away[OF Some] start show ?thesis by simp
  qed
qed

lemma superChain_head: "superChain superOf d ds \<Longrightarrow> ds = d # tl ds"
  by (induction rule: superChain.induct) auto

text \<open>
  Claim C4, as amended. Let \<open>a\<close> name a declaration \<open>d\<close> known to the manager:
  \<^verbatim>\<open>getType(a)\<close> returns \<open>d\<close> and \<open>a\<close> is the fully qualified name of \<open>d\<close>. Then
  \<^verbatim>\<open>derivesFrom(a, a)\<close> returns true; and when the supertype chain of \<open>d\<close> is finite,
  \<^verbatim>\<open>derivesFrom(a, b)\<close> returns, and returns true exactly when \<open>b\<close> is \<open>a\<close> or the fully
  qualified name of a declaration further up the chain.
\<close>

theorem derivesFrom_supertype_chain:
  assumes known: "ModelManager_getType mm a = Inr (Declaration d)"
    and named: "getFullyQualifiedName d = a"
  shows "derivesFrom superOf mm a a = Some (Inr True)
       \<and> (superChain superOf d ds \<longrightarrow>
            derivesFrom superOf mm a b
              = Some (Inr (b = a \<or> b \<in> set (map getFullyQualifiedName (tl ds)))))"
proof (intro conjI impI)
  show "derivesFrom superOf mm a a = Some (Inr True)"
    using known named by (simp add: derivesFrom_def derivesFromLoop.simps)
next
  assume chain: "superChain superOf d ds"
  from superChain_head[OF chain] have "set (map getFullyQualifiedName ds)
      = insert a (set (map getFullyQualifiedName (tl ds)))"
    using named by (metis list.simps(15) list.simps(9))
  then show "derivesFrom superOf mm a b
              = Some (Inr (b = a \<or> b \<in> set (map getFullyQualifiedName (tl ds))))"
    using known derivesFromLoop_chain[OF chain, of b] by (simp add: derivesFrom_def)
qed

theorem derivesFrom_supertype_chain_witness:
  "ModelManager_getType chainManager ''org.chain.Leaf'' = Inr (Declaration (chainDeclaration ''Leaf'' (Some ''Middle'')))
   \<and> getFullyQualifiedName (chainDeclaration ''Leaf'' (Some ''Middle'')) = ''org.chain.Leaf''
   \<and> superChain (getSuperTypeDeclaration chainManager) (chainDeclaration ''Leaf'' (Some ''Middle''))
        [chainDeclaration ''Leaf'' (Some ''Middle''), chainDeclaration ''Middle'' (Some ''Base''),
         chainDeclaration ''Base'' None]
   \<and> derivesFrom (getSuperTypeDeclaration chainManager) chainManager ''org.chain.Leaf'' ''org.chain.Leaf''
        = Some (Inr True)
   \<and> derivesFrom (getSuperTypeDeclaration chainManager) chainManager ''org.chain.Leaf'' ''org.chain.Base''
        = Some (Inr True)
   \<and> derivesFrom (getSuperTypeDeclaration chainManager) chainManager ''org.chain.Leaf'' ''org.chain.Other''
        = Some (Inr False)"
proof -
  let ?leaf = "chainDeclaration ''Leaf'' (Some ''Middle'')"
  let ?middle = "chainDeclaration ''Middle'' (Some ''Base'')"
  let ?base = "chainDeclaration ''Base'' None"
  let ?sup = "getSuperTypeDeclaration chainManager"
  have known: "ModelManager_getType chainManager ''org.chain.Leaf'' = Inr (Declaration ?leaf)"
    by code_simp
  have named: "getFullyQualifiedName ?leaf = ''org.chain.Leaf''" by code_simp
  have s1: "?sup ?leaf = Some ?middle" by code_simp
  have s2: "?sup ?middle = Some ?base" by code_simp
  have s3: "?sup ?base = None" by code_simp
  have c3: "superChain ?sup ?base [?base]"
    using s3 by (rule superChain.top)
  have c2: "superChain ?sup ?middle [?middle, ?base]"
    using s2 c3 by (rule superChain.up)
  have chain: "superChain ?sup ?leaf [?leaf, ?middle, ?base]"
    using s1 c2 by (rule superChain.up)
  have names: "getFullyQualifiedName ?middle = ''org.chain.Middle''"
    "getFullyQualifiedName ?base = ''org.chain.Base''"
    by code_simp+
  note t = derivesFrom_supertype_chain[OF known named, of ?sup "[?leaf, ?middle, ?base]"]
  show ?thesis
    using known named chain t[of "''org.chain.Base''"] t[of "''org.chain.Other''"]
    by (simp add: names)
qed

text \<open>
  The claim as stated fails on a cyclic chain, which a model added with validation
  disabled can contain: \<^verbatim>\<open>concept Loop extends Loop\<close> is registered, and
  \<^verbatim>\<open>derivesFrom\<close> of it and any other name does not return.
\<close>

theorem derivesFrom_cycle_counterexample:
  "ModelManager_getType cycleManager ''org.cycle.Loop''
     = Inr (Declaration \<lparr>kind = Concept, modelFileNamespace = ''org.cycle'', name = ''Loop'',
                          isAbstract = False, superType = Some ''Loop''\<rparr>)
   \<and> derivesFrom (getSuperTypeDeclaration cycleManager) cycleManager ''org.cycle.Loop'' ''org.cycle.Other''
     = None"
proof -
  let ?d = "\<lparr>kind = Concept, modelFileNamespace = ''org.cycle'', name = ''Loop'',
             isAbstract = False, superType = Some ''Loop''\<rparr>"
  have g: "ModelManager_getType cycleManager ''org.cycle.Loop'' = Inr (Declaration ?d)" by code_simp
  have s: "getSuperTypeDeclaration cycleManager ?d = Some ?d" by code_simp
  have n: "getFullyQualifiedName ?d \<noteq> ''org.cycle.Other''" by code_simp
  have "derivesFromLoop (getSuperTypeDeclaration cycleManager) ''org.cycle.Other'' (Some ?d) = None"
    by (rule derivesFromLoop_diverges[where C = "{?d}"]) (use s n in simp_all)
  then show ?thesis by (simp add: derivesFrom_def g)
qed

section \<open>Name resolution in a model file\<close>

lemma wildcardLoop_first:
  "(\<forall>W' \<in> set pre. declaresLocally mm T W' = Inr False) \<Longrightarrow> declaresLocally mm T W = Inr True
     \<Longrightarrow> wildcardLoop mm T (pre @ W # post) = Inr (Some W)"
  by (induction pre) auto

lemma wildcardLoop_none:
  "(\<forall>W' \<in> set ws. declaresLocally mm T W' = Inr False) \<Longrightarrow> wildcardLoop mm T ws = Inr None"
  by (induction ws) auto

lemma declarationFromAst_namespace:
  "declarationFromAst ns thing = Inr d \<Longrightarrow> modelFileNamespace d = ns"
  by (auto simp: declarationFromAst_def newClassDeclaration_def split: if_splits)

lemma declarationsFromAst_namespace:
  "declarationsFromAst ns things = Inr ds \<Longrightarrow> \<forall>d \<in> set ds. modelFileNamespace d = ns"
  by (induction things arbitrary: ds)
     (auto split: sum.splits dest: declarationFromAst_namespace)

lemma buildLocalTypes_keys:
  "map_of (buildLocalTypes ns ds acc) k = Some d
     \<Longrightarrow> \<forall>k' d'. map_of acc k' = Some d' \<longrightarrow> getFullyQualifiedName d' = k' \<and> d' \<in> D
     \<Longrightarrow> \<forall>d' \<in> set ds. modelFileNamespace d' = ns \<and> d' \<in> D
     \<Longrightarrow> getFullyQualifiedName d = k \<and> d \<in> D"
proof (induction ds arbitrary: acc)
  case Nil
  then show ?case by simp
next
  case (Cons x xs)
  show ?case
  proof (rule Cons.IH[of "AList.update (ns @ ''.'' @ getName x) x acc"])
    show "map_of (buildLocalTypes ns xs (AList.update (ns @ ''.'' @ getName x) x acc)) k = Some d"
      using Cons.prems(1) by simp
    show "\<forall>k' d'. map_of (AList.update (ns @ ''.'' @ getName x) x acc) k' = Some d'
            \<longrightarrow> getFullyQualifiedName d' = k' \<and> d' \<in> D"
      using Cons.prems(2,3)
      by (auto simp: update_conv' getFullyQualifiedName_def getName_def split: if_splits)
    show "\<forall>d'\<in>set xs. modelFileNamespace d' = ns \<and> d' \<in> D"
      using Cons.prems(3) by simp
  qed
qed

lemma newModelFile_localTypes:
  assumes "newModelFile S a defs fname = Inr mf" and "map_of (localTypes mf) k = Some d"
  shows "getFullyQualifiedName d = k \<and> d \<in> set (declarations mf)"
proof -
  from assms(1) obtain ds where
    ds: "declarationsFromAst (ast_namespace a)
           (case ast_declarations a of None \<Rightarrow> [] | Some ds \<Rightarrow> ds) = Inr ds"
    and lt: "localTypes mf = buildLocalTypes (ast_namespace a) ds []"
    and dl: "declarations mf = ds"
    by (auto simp: newModelFile_def Let_def split: sum.splits option.splits if_splits)
  show ?thesis
    using buildLocalTypes_keys[of "ast_namespace a" ds "[]" k d "set ds"]
      assms(2) declarationsFromAst_namespace[OF ds]
    by (simp add: lt dl)
qed

text \<open>
  Claim C1, as amended. For a type name \<open>T\<close> that is not primitive, resolution consults
  the imports before the file's own declarations. If \<open>T\<close> is a named import, \<^verbatim>\<open>getType\<close>
  goes by the imported fully qualified name, whether or not \<open>T\<close> is also declared locally:
  it returns null when the manager has nothing under the namespace of that name, and what
  the model file registered under that namespace declares under that name (null when it
  declares nothing). Otherwise the wildcard namespaces are tried in declaration order;
  one for which the manager has nothing, or whose model file does not declare \<open>T\<close>, is
  passed over, and the first whose model file declares \<open>T\<close> decides in the same way. Only
  when \<open>T\<close> is imported in neither way is the local declaration returned (for a file built
  by the constructor and a \<open>T\<close> that does not begin with the namespace string it is the
  declaration named \<^verbatim>\<open><ns>.T\<close>), and null when there is none. An imported or wildcard
  namespace that is the name of a member of \<^verbatim>\<open>Object.prototype\<close> is outside this
  statement.
\<close>

theorem imports_before_local_declarations:
  assumes prim: "\<not> isPrimitiveType T"
  shows "(map_of (importShortNames mf) T = Some fqn \<longrightarrow>
            (getModelFile mm (getNamespace fqn) = Undefined \<longrightarrow>
               ModelFile_getType mm mf T = Inr Null)
          \<and> (getModelFile mm (getNamespace fqn) = OwnFile m \<longrightarrow>
               ModelFile_getType mm mf T = Inr (orNull (getLocalType m fqn))))
       \<and> (map_of (importShortNames mf) T = None
            \<and> importWildcardNamespaces mf = pre @ W # post
            \<and> (\<forall>W' \<in> set pre. declaresLocally mm T W' = Inr False)
            \<and> declaresLocally mm T W = Inr True \<longrightarrow>
            (getModelFile mm (getNamespace (W @ ''.'' @ T)) = Undefined \<longrightarrow>
               ModelFile_getType mm mf T = Inr Null)
          \<and> (getModelFile mm (getNamespace (W @ ''.'' @ T)) = OwnFile w \<longrightarrow>
               ModelFile_getType mm mf T = Inr (orNull (getLocalType w (W @ ''.'' @ T)))))
       \<and> (map_of (importShortNames mf) T = None
            \<and> (\<forall>W' \<in> set (importWildcardNamespaces mf). declaresLocally mm T W' = Inr False) \<longrightarrow>
            (T \<noteq> [] \<and> getLocalType mf T = Some d \<longrightarrow>
               ModelFile_getType mm mf T = Inr (Declaration d)
               \<and> getFullyQualifiedTypeName mm mf T = Inr (Some (getFullyQualifiedName d))
               \<and> (newModelFile S a defs fname = Inr mf \<and> \<not> startsWith T (namespace mf) \<longrightarrow>
                    getFullyQualifiedName d = namespace mf @ ''.'' @ T \<and> d \<in> set (declarations mf)))
            \<and> (\<not> isLocalType mf T \<longrightarrow>
               ModelFile_getType mm mf T = Inr Null
               \<and> getFullyQualifiedTypeName mm mf T = Inr None))"
proof -
  have named0: "ModelFile_getType mm mf T = Inr Null"
    if "map_of (importShortNames mf) T = Some fqn" "getModelFile mm (getNamespace fqn) = Undefined"
    using that prim
    by (simp add: ModelFile_getType_def isImportedType_def resolveImport_def)
  have named1: "ModelFile_getType mm mf T = Inr (orNull (getLocalType m fqn))"
    if "map_of (importShortNames mf) T = Some fqn" "getModelFile mm (getNamespace fqn) = OwnFile m"
    using that prim
    by (simp add: ModelFile_getType_def isImportedType_def resolveImport_def)
  have loop: "wildcardLoop mm T (importWildcardNamespaces mf) = Inr (Some W)"
    if "importWildcardNamespaces mf = pre @ W # post"
       "\<forall>W' \<in> set pre. declaresLocally mm T W' = Inr False" "declaresLocally mm T W = Inr True"
    using that wildcardLoop_first[of pre mm T W post] by simp
  have wild0: "ModelFile_getType mm mf T = Inr Null"
    if "map_of (importShortNames mf) T = None"
       "wildcardLoop mm T (importWildcardNamespaces mf) = Inr (Some W)"
       "getModelFile mm (getNamespace (W @ ''.'' @ T)) = Undefined"
    using that prim
    by (simp add: ModelFile_getType_def isImportedType_def resolveImport_def)
  have wild1: "ModelFile_getType mm mf T = Inr (orNull (getLocalType w (W @ ''.'' @ T)))"
    if "map_of (importShortNames mf) T = None"
       "wildcardLoop mm T (importWildcardNamespaces mf) = Inr (Some W)"
       "getModelFile mm (getNamespace (W @ ''.'' @ T)) = OwnFile w"
    using that prim
    by (simp add: ModelFile_getType_def isImportedType_def resolveImport_def)
  have notimp: "isImportedType mm mf T = Inr False"
    if "map_of (importShortNames mf) T = None"
       "\<forall>W' \<in> set (importWildcardNamespaces mf). declaresLocally mm T W' = Inr False"
    using that wildcardLoop_none[of "importWildcardNamespaces mf" mm T]
    by (simp add: isImportedType_def)
  have loc: "ModelFile_getType mm mf T = Inr (Declaration d)
               \<and> getFullyQualifiedTypeName mm mf T = Inr (Some (getFullyQualifiedName d))"
    if "isImportedType mm mf T = Inr False" "T \<noteq> []" "getLocalType mf T = Some d"
    using that prim
    by (simp add: ModelFile_getType_def getFullyQualifiedTypeName_def isLocalType_def orNull_def)
  have key: "getFullyQualifiedName d = namespace mf @ ''.'' @ T \<and> d \<in> set (declarations mf)"
    if "getLocalType mf T = Some d" "newModelFile S a defs fname = Inr mf" "\<not> startsWith T (namespace mf)"
    using that newModelFile_localTypes[of S a defs fname mf "namespace mf @ ''.'' @ T" d]
    by (simp add: getLocalType_def getNamespaceOf_def)
  have null: "ModelFile_getType mm mf T = Inr Null \<and> getFullyQualifiedTypeName mm mf T = Inr None"
    if "isImportedType mm mf T = Inr False" "\<not> isLocalType mf T"
    using that prim by (simp add: ModelFile_getType_def getFullyQualifiedTypeName_def)
  show ?thesis using named0 named1 loop wild0 wild1 notimp loc key null by blast
qed

theorem imports_before_local_declarations_witness:
  "\<not> isPrimitiveType ''Address''
   \<and> map_of (importShortNames clashFile) ''Address'' = Some ''org.acme.Address''
   \<and> getModelFile clashManager (getNamespace ''org.acme.Address'') = OwnFile acmeFile
   \<and> ModelFile_getType clashManager clashFile ''Address''
       = Inr (Declaration (conceptOf ''org.acme'' ''Address'' None))
   \<and> map_of (importShortNames otherFile) ''Address'' = Some ''org.acme.Address''
   \<and> getModelFile rootManager (getNamespace ''org.acme.Address'') = Undefined
   \<and> ModelFile_getType rootManager otherFile ''Address'' = Inr Null
   \<and> map_of (importShortNames wildFile) ''Address'' = None
   \<and> importWildcardNamespaces wildFile = [] @ ''org.acme'' # []
   \<and> declaresLocally wildManager ''Address'' ''org.acme'' = Inr True
   \<and> getModelFile wildManager (getNamespace (''org.acme'' @ ''.'' @ ''Address'')) = OwnFile acmeFile
   \<and> ModelFile_getType wildManager wildFile ''Address''
       = Inr (Declaration (conceptOf ''org.acme'' ''Address'' None))
   \<and> \<not> isPrimitiveType ''org.acme.Address''
   \<and> map_of (importShortNames wildFile) ''org.acme.Address'' = None
   \<and> declaresLocally wildManager ''org.acme.Address'' ''org.acme'' = Inr True
   \<and> getModelFile wildManager (getNamespace (''org.acme'' @ ''.'' @ ''org.acme.Address'')) = Undefined
   \<and> ModelFile_getType wildManager wildFile ''org.acme.Address'' = Inr Null
   \<and> map_of (importShortNames acmeFile) ''Address'' = None
   \<and> getLocalType acmeFile ''Address'' = Some (conceptOf ''org.acme'' ''Address'' None)
   \<and> newModelFile anyVersion (ast acmeFile) None None = Inr acmeFile
   \<and> \<not> startsWith ''Address'' (namespace acmeFile)
   \<and> ModelFile_getType acmeManager acmeFile ''Address''
       = Inr (Declaration (conceptOf ''org.acme'' ''Address'' None))
   \<and> getFullyQualifiedTypeName acmeManager acmeFile ''Address'' = Inr (Some ''org.acme.Address'')
   \<and> \<not> isPrimitiveType ''Nothing''
   \<and> map_of (importShortNames acmeFile) ''Nothing'' = None
   \<and> \<not> isLocalType acmeFile ''Nothing''
   \<and> ModelFile_getType acmeManager acmeFile ''Nothing'' = Inr Null
   \<and> getFullyQualifiedTypeName acmeManager acmeFile ''Nothing'' = Inr None"
proof -
  let ?d = "conceptOf ''org.acme'' ''Address'' None"
  have p: "\<not> isPrimitiveType ''Address''" "\<not> isPrimitiveType ''Nothing''"
    "\<not> isPrimitiveType ''org.acme.Address''" by code_simp+
  have n1: "map_of (importShortNames clashFile) ''Address'' = Some ''org.acme.Address''" by code_simp
  have n2: "getModelFile clashManager (getNamespace ''org.acme.Address'') = OwnFile acmeFile"
    by code_simp
  have n3: "orNull (getLocalType acmeFile ''org.acme.Address'') = Declaration ?d" by code_simp
  have u1: "map_of (importShortNames otherFile) ''Address'' = Some ''org.acme.Address''" by code_simp
  have u2: "getModelFile rootManager (getNamespace ''org.acme.Address'') = Undefined" by code_simp
  have w1: "map_of (importShortNames wildFile) ''Address'' = None"
    "map_of (importShortNames wildFile) ''org.acme.Address'' = None" by code_simp+
  have w2: "importWildcardNamespaces wildFile = [] @ ''org.acme'' # []" by code_simp
  have w3: "declaresLocally wildManager ''Address'' ''org.acme'' = Inr True"
    "declaresLocally wildManager ''org.acme.Address'' ''org.acme'' = Inr True" by code_simp+
  have w4: "getModelFile wildManager (getNamespace (''org.acme'' @ ''.'' @ ''Address'')) = OwnFile acmeFile"
    by code_simp
  have w5: "orNull (getLocalType acmeFile (''org.acme'' @ ''.'' @ ''Address'')) = Declaration ?d"
    by code_simp
  have w6: "getModelFile wildManager (getNamespace (''org.acme'' @ ''.'' @ ''org.acme.Address'')) = Undefined"
    by code_simp
  have l1: "map_of (importShortNames acmeFile) ''Address'' = None"
    "map_of (importShortNames acmeFile) ''Nothing'' = None" by code_simp+
  have l2: "importWildcardNamespaces acmeFile = []" by code_simp
  have l3: "getLocalType acmeFile ''Address'' = Some ?d" by code_simp
  have l4: "newModelFile anyVersion (ast acmeFile) None None = Inr acmeFile" by code_simp
  have l5: "\<not> startsWith ''Address'' (namespace acmeFile)" by code_simp
  have l6: "getFullyQualifiedName ?d = ''org.acme.Address''" by code_simp
  have l7: "\<not> isLocalType acmeFile ''Nothing''" by code_simp
  note named = imports_before_local_declarations[OF p(1),
      where mf = clashFile and fqn = "''org.acme.Address''" and mm = clashManager and m = acmeFile]
  note unreg = imports_before_local_declarations[OF p(1),
      where mf = otherFile and fqn = "''org.acme.Address''" and mm = rootManager]
  note wild = imports_before_local_declarations[OF p(1),
      where mf = wildFile and mm = wildManager and pre = "[]" and W = "''org.acme''" and post = "[]"
        and w = acmeFile]
  note wildu = imports_before_local_declarations[OF p(3),
      where mf = wildFile and mm = wildManager and pre = "[]" and W = "''org.acme''" and post = "[]"]
  note loc = imports_before_local_declarations[OF p(1),
      where mf = acmeFile and mm = acmeManager and d = ?d and S = anyVersion and a = "ast acmeFile"
        and defs = None and fname = None]
  note null = imports_before_local_declarations[OF p(2), where mf = acmeFile and mm = acmeManager]
  have r1: "ModelFile_getType clashManager clashFile ''Address'' = Inr (Declaration ?d)"
    using named n1 n2 n3 by simp
  have r0: "ModelFile_getType rootManager otherFile ''Address'' = Inr Null"
    using unreg u1 u2 by simp
  have r2: "ModelFile_getType wildManager wildFile ''Address'' = Inr (Declaration ?d)"
    using wild w1 w2 w3 w4 w5 by simp
  have r5: "ModelFile_getType wildManager wildFile ''org.acme.Address'' = Inr Null"
    using wildu w1 w2 w3 w6 by simp
  have r3: "ModelFile_getType acmeManager acmeFile ''Address'' = Inr (Declaration ?d)
     \<and> getFullyQualifiedTypeName acmeManager acmeFile ''Address'' = Inr (Some ''org.acme.Address'')"
    using loc l1 l2 l3 l4 l5 l6 by simp
  have r4: "ModelFile_getType acmeManager acmeFile ''Nothing'' = Inr Null
     \<and> getFullyQualifiedTypeName acmeManager acmeFile ''Nothing'' = Inr None"
    using null l1 l2 l7 by simp
  show ?thesis using p n1 n2 u1 u2 w1 w2 w3 w4 w6 l1 l3 l4 l5 l7 r0 r1 r2 r3 r4 r5 by simp
qed

text \<open>
  The claim as stated fails: a file that declares \<^verbatim>\<open>Address\<close> and also imports
  \<^verbatim>\<open>org.acme.Address\<close> resolves the short name to the imported declaration.
\<close>

theorem local_declaration_shadowed_counterexample:
  "getModelFile clashManager ''org.clash'' = OwnFile clashFile
   \<and> \<not> isPrimitiveType ''Address''
   \<and> getLocalType clashFile ''Address'' = Some (conceptOf ''org.clash'' ''Address'' None)
   \<and> map_of (importShortNames clashFile) ''Address'' = Some ''org.acme.Address''
   \<and> ModelFile_getType clashManager clashFile ''Address''
       = Inr (Declaration (conceptOf ''org.acme'' ''Address'' None))
   \<and> getFullyQualifiedTypeName clashManager clashFile ''Address'' = Inr (Some ''org.acme.Address'')"
  by code_simp

section \<open>Lookup by fully qualified name\<close>

text \<open>
  Claim C5. The manager's \<^verbatim>\<open>getType\<close> on \<^verbatim>\<open>namespace + '.' + t\<close> and the file's
  \<^verbatim>\<open>getLocalType(t)\<close> should return the same declaration for every declared short name
  \<open>t\<close>. \<^verbatim>\<open>getLocalType\<close> decides whether its argument is already qualified by
  \<^verbatim>\<open>type.startsWith(namespace)\<close>, without the dot: in the namespace \<^verbatim>\<open>Acme\<close> the
  declared short name \<^verbatim>\<open>AcmeAddress\<close> is taken for a qualified name and not found,
  while the manager finds the declaration.
\<close>

theorem getLocalType_namespace_prefix:
  "fst (addModelFile noDeclarationErrors rootManager prefixFile False) = Inr prefixFile
   \<and> getModelFile prefixManager ''Acme'' = OwnFile prefixFile
   \<and> map getName (declarations prefixFile) = [''AcmeAddress'']
   \<and> ModelManager_getType prefixManager (getNamespaceOf prefixFile @ ''.'' @ ''AcmeAddress'')
       = Inr (Declaration (conceptOf ''Acme'' ''AcmeAddress'' None))
   \<and> getLocalType prefixFile ''AcmeAddress'' = None"
  by code_simp

section \<open>The string regex validator\<close>

text \<open>
  For every regular-expression engine: a pattern that \<^verbatim>\<open>new RegExp\<close> rejects is
  reported by the constructor, and \<^verbatim>\<open>validate\<close> of \<^verbatim>\<open>null\<close> returns without touching
  the regular expression.
\<close>

lemma malformed_pattern_and_null:
  "(newRegExp E (pattern v) (case flags v of None \<Rightarrow> None | Some f \<Rightarrow> if f \<noteq> [] then Some f else None)
       = Inl message
      \<longrightarrow> newStringValidator E field v = Inl (reportError message None))
   \<and> StringValidator_validate E sv identifier JsNull = (Inr (), sv)"
  by (auto simp: newStringValidator_def StringValidator_validate_def split: option.splits)

text \<open>
  Claim C9. \<^verbatim>\<open>validate\<close> should raise exactly when the value is not null and does not
  match the compiled regular expression. The validator keeps one \<^verbatim>\<open>RegExp\<close> object and
  calls \<^verbatim>\<open>test\<close> on it, and \<^verbatim>\<open>test\<close> of an expression with the flag \<^verbatim>\<open>g\<close> (or
  \<^verbatim>\<open>y\<close>) starts at the \<^verbatim>\<open>lastIndex\<close> the previous call left. For the validator of
  \<^verbatim>\<open>regex=/foo/g\<close> the value \<^verbatim>\<open>'foo'\<close> matches the expression; the first
  \<^verbatim>\<open>validate\<close> of it returns and leaves \<^verbatim>\<open>lastIndex\<close> at 3, and the second
  \<^verbatim>\<open>validate\<close> of the same value raises.
\<close>

theorem global_flag_second_validate:
  "newStringValidator literalEngine ''theValue'' \<lparr> pattern = ''foo'', flags = Some ''g'' \<rparr>
     = Inr (fooValidator 0)
   \<and> containsText ''foo'' ''foo''
   \<and> StringValidator_validate literalEngine (fooValidator 0) ''id'' (JsString ''foo'')
       = (Inr (), fooValidator 3)
   \<and> StringValidator_validate literalEngine (fooValidator 3) ''id'' (JsString ''foo'')
       = (Inl (IllegalModelException ''id''
                 (''Value '' @ [CHR 0x27] @ ''foo'' @ [CHR 0x27]
                  @ '' failed to match validation regex: /foo/g'')),
          fooValidator 0)"
  by code_simp

section \<open>Serialization with and without validation\<close>

lemma firstError_append:
  "firstError f (xs @ ys) = (case firstError f xs of Some e \<Rightarrow> Some e | None \<Rightarrow> firstError f ys)"
  by (induction xs) (auto split: option.splits)

lemma firstError_none: "(\<forall>x \<in> set xs. f x = None) \<Longrightarrow> firstError f xs = None"
  by (induction xs) auto

lemma firstError_some: "x \<in> set xs \<Longrightarrow> f x \<noteq> None \<Longrightarrow> firstError f xs \<noteq> None"
  by (induction xs) (auto split: option.splits)

lemma validateFields_names: "map fst (validateFields label props vals) = map fst vals"
  by (induction vals) auto

lemma declared_fields_pass:
  assumes "\<forall>nv \<in> set vals. fst nv \<in> propName ` set props"
  shows "firstError (checkDeclared props) (validateFields label props vals) = None"
proof (rule firstError_none, rule ballI)
  fix x assume "x \<in> set (validateFields label props vals)"
  then have "fst x \<in> set (map fst (validateFields label props vals))" by simp
  then have "fst x \<in> fst ` set vals" by (simp add: validateFields_names)
  with assms show "checkDeclared props x = None" by (auto simp: checkDeclared_def)
qed

lemma validateInstance_first_failure:
  assumes props: "linkedProperties d = pre @ p # post"
    and concrete: "\<not> linkedIsAbstract d"
    and declared: "\<forall>nv \<in> set vals. fst nv \<in> propName ` set (linkedProperties d)"
    and before: "\<forall>q \<in> set pre. checkProperty (instanceLabel d ident) vals
                    (validateFields (instanceLabel d ident) (linkedProperties d) vals) q = None"
    and fails: "checkProperty (instanceLabel d ident) vals
                    (validateFields (instanceLabel d ident) (linkedProperties d) vals) p = Some e"
  shows "validateInstance (TypedValue d ident ts vals) = Some e"
proof -
  have "firstError (checkProperty (instanceLabel d ident) vals
          (validateFields (instanceLabel d ident) (linkedProperties d) vals)) (pre @ p # post) = Some e"
    using before fails by (simp add: firstError_append firstError_none)
  then show ?thesis
    using concrete declared_fields_pass[OF declared, of "instanceLabel d ident"]
    by (simp add: Let_def props[symmetric])
qed

lemma emitProperty_keys:
  "(n, j) \<in> set (emitProperty vals emitted p) \<Longrightarrow> n = propName p \<and> fieldValue vals n \<noteq> None"
  by (cases "fieldValue vals (propName p)"; cases "map_of emitted (propName p)")
     (simp_all add: emitProperty_def)

lemma emitted_keys:
  "n \<in> fst ` set (concat (map (emitProperty vals emitted) props)) \<Longrightarrow> fieldValue vals n \<noteq> None"
  using emitProperty_keys by fastforce

lemma emitFields_lookup:
  "map_of (emitFields enc vals) n = map_option (emitValue enc) (map_of vals n)"
  by (induction vals) auto

lemma emitted_lookup:
  assumes "p \<in> set props" and "fieldValue vals (propName p) = Some v"
  shows "map_of (concat (map (emitProperty vals (emitFields enc vals)) props)) (propName p)
           = Some (emitValue enc v)"
  using assms
proof (induction props)
  case Nil
  then show ?case by simp
next
  case (Cons q qs)
  have v: "map_of vals (propName p) = Some v"
    using Cons.prems(2) by (auto simp: fieldValue_def split: option.splits instanceValue.splits)
  show ?case
  proof (cases "propName q = propName p")
    case True
    then show ?thesis
      using Cons.prems(2) v by (simp add: emitProperty_def emitFields_lookup)
  next
    case False
    then have "p \<in> set qs" using Cons.prems(1) by auto
    moreover have "map_of (emitProperty vals (emitFields enc vals) q) (propName p) = None"
      using False by (auto simp: emitProperty_def split: option.splits)
    ultimately show ?thesis
      using Cons.IH Cons.prems(2) by (simp add: map_add_def)
  qed
qed

text \<open>
  Claim C3. Let an instance lack a value for a property \<open>p\<close> of its declaration that is
  not optional. With validation in force \<^verbatim>\<open>toJSON\<close> fails, and when \<open>p\<close> is the first
  thing wrong with the instance the error is the model violation that names the instance
  (fully qualified name, \<^verbatim>\<open>#\<close>, identifier) and the missing field. Without validation
  \<^verbatim>\<open>toJSON\<close> succeeds and the object it emits has no entry for \<open>p\<close>. Whether validation
  is in force is the per-call option when given, whatever its value, and the default
  otherwise; the default of an unconfigured serializer is to validate.
\<close>

theorem missing_required_field:
  assumes props: "linkedProperties d = pre @ p # post"
    and required: "\<not> propIsOptional p"
    and missing: "fieldValue vals (propName p) = None"
  shows "(opt_validate (mergeOptions defaults ov) \<longrightarrow>
            isl (toJSON enc defaults (TypedValue d ident ts vals) ov)
          \<and> (\<not> linkedIsAbstract d
               \<and> (\<forall>nv \<in> set vals. fst nv \<in> propName ` set (linkedProperties d))
               \<and> (\<forall>q \<in> set pre. checkProperty (instanceLabel d ident) vals
                      (validateFields (instanceLabel d ident) (linkedProperties d) vals) q = None)
             \<longrightarrow> toJSON enc defaults (TypedValue d ident ts vals) ov
                   = Inl (ModelViolation (instanceLabel d ident) (propName p) MissingRequiredField)))
       \<and> (\<not> opt_validate (mergeOptions defaults ov) \<longrightarrow>
            (\<exists>entries. toJSON enc defaults (TypedValue d ident ts vals) ov = Inr (JsonObject entries)
               \<and> (propName p \<notin> {''$class'', ''$identifier'', ''$timestamp''}
                    \<longrightarrow> propName p \<notin> fst ` set entries)))
       \<and> opt_validate (mergeOptions defaults ov)
            = (case set_validate ov of None \<Rightarrow> opt_validate defaults | Some v \<Rightarrow> v)
       \<and> opt_validate baseDefaultOptions"
proof -
  let ?label = "instanceLabel d ident"
  let ?verdicts = "validateFields ?label (linkedProperties d) vals"
  have fails: "checkProperty ?label vals ?verdicts p
                 = Some (ModelViolation ?label (propName p) MissingRequiredField)"
    using required missing by (simp add: checkProperty_def)
  have invalid: "validateInstance (TypedValue d ident ts vals) \<noteq> None"
  proof -
    have "firstError (checkProperty ?label vals ?verdicts) (linkedProperties d) \<noteq> None"
    proof (rule firstError_some[of p])
      show "p \<in> set (linkedProperties d)" by (simp add: props)
      show "checkProperty ?label vals ?verdicts p \<noteq> None" by (simp add: fails)
    qed
    then show ?thesis by (auto simp: Let_def split: option.splits)
  qed
  have exact: "validateInstance (TypedValue d ident ts vals)
                 = Some (ModelViolation ?label (propName p) MissingRequiredField)"
    if "\<not> linkedIsAbstract d" "\<forall>nv \<in> set vals. fst nv \<in> propName ` set (linkedProperties d)"
       "\<forall>q \<in> set pre. checkProperty ?label vals ?verdicts q = None"
    using validateInstance_first_failure[OF props that fails] .
  have v1: "isl (toJSON enc defaults (TypedValue d ident ts vals) ov)"
    if "opt_validate (mergeOptions defaults ov)"
    using that invalid
    by (auto simp: toJSON_def Let_def simp del: validateInstance.simps split: option.splits)
  have v2: "toJSON enc defaults (TypedValue d ident ts vals) ov
                   = Inl (ModelViolation ?label (propName p) MissingRequiredField)"
    if "opt_validate (mergeOptions defaults ov)" "\<not> linkedIsAbstract d"
       "\<forall>nv \<in> set vals. fst nv \<in> propName ` set (linkedProperties d)"
       "\<forall>q \<in> set pre. checkProperty ?label vals ?verdicts q = None"
    using that(1) exact[OF that(2-4)]
    by (simp add: toJSON_def Let_def del: validateInstance.simps)
  have absent: "propName p \<notin> fst ` set (concat (map (emitProperty vals (emitFields enc vals)) (linkedProperties d)))"
    using emitted_keys[of "propName p" vals "emitFields enc vals" "linkedProperties d"] missing by blast
  have nv: "\<exists>entries. toJSON enc defaults (TypedValue d ident ts vals) ov = Inr (JsonObject entries)
               \<and> (propName p \<notin> {''$class'', ''$identifier'', ''$timestamp''}
                    \<longrightarrow> propName p \<notin> fst ` set entries)"
    if "\<not> opt_validate (mergeOptions defaults ov)"
    using that absent
    by (auto simp: toJSON_def Let_def split: option.splits)
  have ov: "opt_validate (mergeOptions defaults ov)
            = (case set_validate ov of None \<Rightarrow> opt_validate defaults | Some v \<Rightarrow> v)"
    by (simp add: mergeOptions_def orDefault_def)
  have base: "opt_validate baseDefaultOptions" by (simp add: baseDefaultOptions_def)
  show ?thesis using v1 v2 nv ov base by blast
qed


theorem missing_required_field_witness:
  "linkedProperties sampleAsset
     = [fieldOf ''String'' ''assetId'' False False] @ ownerProperty
         # [fieldOf ''String'' ''stringValue'' False False, fieldOf ''Double'' ''doubleValue'' False False]
   \<and> \<not> propIsOptional ownerProperty
   \<and> fieldValue [(''assetId'', StringValue ''1'')] (propName ownerProperty) = None
   \<and> toJSON plainIdentifier baseDefaultOptions bareAsset noOverrides
       = Inl (ModelViolation ''org.acme.sample.SampleAsset#1'' ''owner'' MissingRequiredField)
   \<and> toJSON plainIdentifier baseDefaultOptions bareAsset (validateOnly True)
       = Inl (ModelViolation ''org.acme.sample.SampleAsset#1'' ''owner'' MissingRequiredField)
   \<and> (\<exists>entries. toJSON plainIdentifier baseDefaultOptions bareAsset (validateOnly False)
                   = Inr (JsonObject entries) \<and> ''owner'' \<notin> fst ` set entries)
   \<and> (\<exists>entries. toJSON plainIdentifier (setDefaultOptions (validateOnly False)) bareAsset noOverrides
                   = Inr (JsonObject entries) \<and> ''owner'' \<notin> fst ` set entries)
   \<and> toJSON plainIdentifier (setDefaultOptions (validateOnly False)) bareAsset (validateOnly True)
       = Inl (ModelViolation ''org.acme.sample.SampleAsset#1'' ''owner'' MissingRequiredField)"
proof -
  let ?pre = "[fieldOf ''String'' ''assetId'' False False]"
  let ?post = "[fieldOf ''String'' ''stringValue'' False False, fieldOf ''Double'' ''doubleValue'' False False]"
  let ?vals = "[(''assetId'', StringValue ''1'')]"
  have props: "linkedProperties sampleAsset = ?pre @ ownerProperty # ?post" by code_simp
  have required: "\<not> propIsOptional ownerProperty" by code_simp
  have missing: "fieldValue ?vals (propName ownerProperty) = None" by code_simp
  have concrete: "\<not> linkedIsAbstract sampleAsset" by code_simp
  have declared: "\<forall>nv \<in> set ?vals. fst nv \<in> propName ` set (linkedProperties sampleAsset)"
    by code_simp
  have before: "\<forall>q \<in> set ?pre. checkProperty (instanceLabel sampleAsset (Some ''1'')) ?vals
                      (validateFields (instanceLabel sampleAsset (Some ''1''))
                         (linkedProperties sampleAsset) ?vals) q = None"
    by code_simp
  have label: "instanceLabel sampleAsset (Some ''1'') = ''org.acme.sample.SampleAsset#1''"
    by code_simp
  have name: "propName ownerProperty = ''owner''"
    "''owner'' \<notin> {''$class'', ''$identifier'', ''$timestamp''}" by code_simp+
  have on: "opt_validate (mergeOptions baseDefaultOptions noOverrides)"
    "opt_validate (mergeOptions baseDefaultOptions (validateOnly True))"
    "opt_validate (mergeOptions (setDefaultOptions (validateOnly False)) (validateOnly True))"
    by code_simp+
  have off: "\<not> opt_validate (mergeOptions baseDefaultOptions (validateOnly False))"
    "\<not> opt_validate (mergeOptions (setDefaultOptions (validateOnly False)) noOverrides)"
    by code_simp+
  note t = missing_required_field[OF props required missing,
      where enc = plainIdentifier and ident = "Some ''1''" and ts = None]
  have inst: "bareAsset = TypedValue sampleAsset (Some ''1'') None ?vals" by (simp add: bareAsset_def)
  show ?thesis
    unfolding inst
    using props required missing concrete declared before label name on off
      t[where defaults = baseDefaultOptions and ov = noOverrides]
      t[where defaults = baseDefaultOptions and ov = "validateOnly True"]
      t[where defaults = baseDefaultOptions and ov = "validateOnly False"]
      t[where defaults = "setDefaultOptions (validateOnly False)" and ov = noOverrides]
      t[where defaults = "setDefaultOptions (validateOnly False)" and ov = "validateOnly True"]
    by simp
qed

lemma validateFields_lookup:
  "map_of (validateFields label props vals) n =
     (case map_of vals n of
        None \<Rightarrow> None
      | Some v \<Rightarrow> Some (case find (\<lambda>p. propName p = n) props of
                         None \<Rightarrow> Some (ModelViolation label n UnexpectedProperty)
                       | Some p \<Rightarrow> validateValue label p (propIsArray p) v))"
  by (induction vals) auto

lemma find_first_named:
  "\<forall>q \<in> set pre. propName q \<noteq> propName p
     \<Longrightarrow> find (\<lambda>q. propName q = propName p) (pre @ p # post) = Some p"
  by (induction pre) auto

lemma fieldValue_stored: "fieldValue vals n = Some v \<Longrightarrow> map_of vals n = Some v"
  by (auto simp: fieldValue_def split: option.splits instanceValue.splits)

lemma header_then_properties:
  "k \<notin> fst ` set xs \<Longrightarrow> map_of (xs @ ys) k = map_of ys k"
  by (induction xs) auto

text \<open>
  Claim C7. Let a non-array \<^verbatim>\<open>Double\<close> field \<open>p\<close> hold a number \<open>n\<close>. If \<open>n\<close> is not
  finite (\<^verbatim>\<open>NaN\<close> or either infinity), \<^verbatim>\<open>toJSON\<close> with validation fails, and when the
  field is the first thing wrong with the instance the error is the model violation that
  names the instance, the field and the value. If \<open>n\<close> is finite the field passes
  validation and the emitted object carries it as a JSON number.
\<close>

theorem non_finite_double_rejected:
  assumes props: "linkedProperties d = pre @ p # post"
    and first: "\<forall>q \<in> set pre. propName q \<noteq> propName p"
    and double: "propType p = ''Double''" "propKind p = Field" "\<not> propIsArray p"
    and stored: "fieldValue vals (propName p) = Some (NumberValue n)"
  shows "(\<not> isFinite n \<and> opt_validate (mergeOptions defaults ov) \<longrightarrow>
            isl (toJSON enc defaults (TypedValue d ident ts vals) ov)
          \<and> (\<not> linkedIsAbstract d
               \<and> (\<forall>nv \<in> set vals. fst nv \<in> propName ` set (linkedProperties d))
               \<and> (\<forall>q \<in> set pre. checkProperty (instanceLabel d ident) vals
                      (validateFields (instanceLabel d ident) (linkedProperties d) vals) q = None)
             \<longrightarrow> toJSON enc defaults (TypedValue d ident ts vals) ov
                   = Inl (ModelViolation (instanceLabel d ident) (propName p) (NonFiniteNumber n))))
       \<and> (isFinite n \<longrightarrow>
            checkProperty (instanceLabel d ident) vals
              (validateFields (instanceLabel d ident) (linkedProperties d) vals) p = None
          \<and> (\<forall>entries. toJSON enc defaults (TypedValue d ident ts vals) ov = Inr (JsonObject entries)
                 \<and> propName p \<notin> {''$class'', ''$identifier'', ''$timestamp''}
               \<longrightarrow> map_of entries (propName p) = Some (JsonNumber n)))"
proof -
  let ?label = "instanceLabel d ident"
  let ?verdicts = "validateFields ?label (linkedProperties d) vals"
  have verdict: "checkProperty ?label vals ?verdicts p
                   = (if isFinite n then None
                      else Some (ModelViolation ?label (propName p) (NonFiniteNumber n)))"
    using stored fieldValue_stored[OF stored] double find_first_named[OF first, of post]
    by (simp add: checkProperty_def validateFields_lookup props)
  have mem: "p \<in> set (linkedProperties d)" by (simp add: props)
  have invalid: "validateInstance (TypedValue d ident ts vals) \<noteq> None" if "\<not> isFinite n"
  proof -
    have "firstError (checkProperty ?label vals ?verdicts) (linkedProperties d) \<noteq> None"
      using mem by (rule firstError_some) (simp add: verdict that)
    then show ?thesis by (auto simp: Let_def split: option.splits)
  qed
  have exact: "validateInstance (TypedValue d ident ts vals)
                 = Some (ModelViolation ?label (propName p) (NonFiniteNumber n))"
    if "\<not> isFinite n" "\<not> linkedIsAbstract d"
       "\<forall>nv \<in> set vals. fst nv \<in> propName ` set (linkedProperties d)"
       "\<forall>q \<in> set pre. checkProperty ?label vals ?verdicts q = None"
    using validateInstance_first_failure[OF props that(2-4)] verdict that(1) by simp
  have v1: "isl (toJSON enc defaults (TypedValue d ident ts vals) ov)"
    if "\<not> isFinite n" "opt_validate (mergeOptions defaults ov)"
    using that(2) invalid[OF that(1)]
    by (auto simp: toJSON_def Let_def simp del: validateInstance.simps split: option.splits)
  have v2: "toJSON enc defaults (TypedValue d ident ts vals) ov
                   = Inl (ModelViolation ?label (propName p) (NonFiniteNumber n))"
    if "\<not> isFinite n" "opt_validate (mergeOptions defaults ov)" "\<not> linkedIsAbstract d"
       "\<forall>nv \<in> set vals. fst nv \<in> propName ` set (linkedProperties d)"
       "\<forall>q \<in> set pre. checkProperty ?label vals ?verdicts q = None"
    using that(2) exact[OF that(1) that(3-5)]
    by (simp add: toJSON_def Let_def del: validateInstance.simps)
  have fin: "checkProperty ?label vals ?verdicts p = None" if "isFinite n"
    using verdict that by simp
  have out: "map_of entries (propName p) = Some (JsonNumber n)"
    if run: "toJSON enc defaults (TypedValue d ident ts vals) ov = Inr (JsonObject entries)"
      and name: "propName p \<notin> {''$class'', ''$identifier'', ''$timestamp''}" for entries
  proof -
    let ?header = "[(''$class'', JsonString (linkedFqn d))]
        @ (case ident of
             None \<Rightarrow> []
           | Some i \<Rightarrow> if linkedKind d \<in> {Asset, Participant, Transaction, Event}
                       then [(''$identifier'', JsonString i)] else [])
        @ (case ts of
             None \<Rightarrow> []
           | Some t \<Rightarrow> if linkedKind d \<in> {Transaction, Event}
                       then [(''$timestamp'', JsonString t)] else [])"
    let ?body = "concat (map (emitProperty vals (emitFields enc vals)) (linkedProperties d))"
    from run have "emitValue enc (TypedValue d ident ts vals) = JsonObject entries"
      by (auto simp: toJSON_def Let_def simp del: validateInstance.simps emitValue.simps
               split: option.splits if_splits)
    then have entries: "entries = ?header @ ?body" by simp
    have "propName p \<notin> fst ` set ?header"
      using name by (auto split: option.splits if_splits)
    then have "map_of entries (propName p) = map_of ?body (propName p)"
      unfolding entries by (rule header_then_properties)
    also have "\<dots> = Some (emitValue enc (NumberValue n))"
      using mem stored by (rule emitted_lookup)
    finally show ?thesis by simp
  qed
  show ?thesis using v1 v2 fin out by blast
qed


theorem non_finite_double_rejected_witness:
  "linkedProperties sampleAsset
     = [fieldOf ''String'' ''assetId'' False False, ownerProperty,
        fieldOf ''String'' ''stringValue'' False False] @ fieldOf ''Double'' ''doubleValue'' False False # []
   \<and> toJSON plainIdentifier baseDefaultOptions (fullAsset NaN) noOverrides
       = Inl (ModelViolation ''org.acme.sample.SampleAsset#1'' ''doubleValue'' (NonFiniteNumber NaN))
   \<and> toJSON plainIdentifier baseDefaultOptions (fullAsset PositiveInfinity) noOverrides
       = Inl (ModelViolation ''org.acme.sample.SampleAsset#1'' ''doubleValue'' (NonFiniteNumber PositiveInfinity))
   \<and> toJSON plainIdentifier baseDefaultOptions (fullAsset NegativeInfinity) noOverrides
       = Inl (ModelViolation ''org.acme.sample.SampleAsset#1'' ''doubleValue'' (NonFiniteNumber NegativeInfinity))
   \<and> toJSON plainIdentifier baseDefaultOptions (fullAsset (Finite 3.14)) noOverrides
       = Inr (JsonObject
           [(''$class'', JsonString ''org.acme.sample.SampleAsset''),
            (''$identifier'', JsonString ''1''),
            (''assetId'', JsonString ''1''),
            (''owner'', JsonString ''resource:org.acme.sample.SampleParticipant#alice@email.com''),
            (''stringValue'', JsonString ''the value''),
            (''doubleValue'', JsonNumber (Finite 3.14))])
   \<and> map_of [(''$class'', JsonString ''org.acme.sample.SampleAsset''),
            (''$identifier'', JsonString ''1''),
            (''assetId'', JsonString ''1''),
            (''owner'', JsonString ''resource:org.acme.sample.SampleParticipant#alice@email.com''),
            (''stringValue'', JsonString ''the value''),
            (''doubleValue'', JsonNumber (Finite 3.14))] ''doubleValue'' = Some (JsonNumber (Finite 3.14))"
proof -
  let ?pre = "[fieldOf ''String'' ''assetId'' False False, ownerProperty,
               fieldOf ''String'' ''stringValue'' False False]"
  let ?p = "fieldOf ''Double'' ''doubleValue'' False False"
  let ?vals = "\<lambda>n. [(''assetId'', StringValue ''1''),
        (''owner'', RelationshipValue ''org.acme.sample.SampleParticipant'' ''alice@email.com''),
        (''stringValue'', StringValue ''the value''),
        (''doubleValue'', NumberValue n)]"
  let ?label = "instanceLabel sampleAsset (Some ''1'')"
  have props: "linkedProperties sampleAsset = ?pre @ ?p # []" by code_simp
  have first: "\<forall>q \<in> set ?pre. propName q \<noteq> propName ?p" by code_simp
  have double: "propType ?p = ''Double''" "propKind ?p = Field" "\<not> propIsArray ?p" by code_simp+
  have stored: "fieldValue (?vals n) (propName ?p) = Some (NumberValue n)" for n
    by (simp add: fieldValue_def fieldOf_def)
  have concrete: "\<not> linkedIsAbstract sampleAsset" by code_simp
  have declared: "\<forall>nv \<in> set (?vals n). fst nv \<in> propName ` set (linkedProperties sampleAsset)" for n
    by (simp add: sampleAsset_def fieldOf_def ownerProperty_def)
  have before: "\<forall>q \<in> set ?pre. checkProperty ?label (?vals n)
                      (validateFields ?label (linkedProperties sampleAsset) (?vals n)) q = None" for n
    by (simp add: sampleAsset_def fieldOf_def ownerProperty_def checkProperty_def fieldValue_def)
  have label: "?label = ''org.acme.sample.SampleAsset#1''" by code_simp
  have name: "propName ?p = ''doubleValue''"
    "''doubleValue'' \<notin> {''$class'', ''$identifier'', ''$timestamp''}" by code_simp+
  have on: "opt_validate (mergeOptions baseDefaultOptions noOverrides)" by code_simp
  have fin: "\<not> isFinite NaN" "\<not> isFinite PositiveInfinity" "\<not> isFinite NegativeInfinity"
    "isFinite (Finite 3.14)" by simp_all
  have good: "toJSON plainIdentifier baseDefaultOptions (fullAsset (Finite 3.14)) noOverrides
       = Inr (JsonObject
           [(''$class'', JsonString ''org.acme.sample.SampleAsset''),
            (''$identifier'', JsonString ''1''),
            (''assetId'', JsonString ''1''),
            (''owner'', JsonString ''resource:org.acme.sample.SampleParticipant#alice@email.com''),
            (''stringValue'', JsonString ''the value''),
            (''doubleValue'', JsonNumber (Finite 3.14))])"
    by code_simp
  note u = non_finite_double_rejected[OF props first double,
      where defaults = baseDefaultOptions and ov = noOverrides and enc = plainIdentifier
        and ident = "Some ''1''" and ts = None]
  have inst: "fullAsset n = TypedValue sampleAsset (Some ''1'') None (?vals n)" for n
    by (simp add: fullAsset_def)
  show ?thesis
    unfolding inst
    using props concrete declared before label name on fin good[unfolded inst]
      u[OF stored[of NaN]] u[OF stored[of PositiveInfinity]] u[OF stored[of NegativeInfinity]]
      u[OF stored[of "Finite 3.14"]]
    by simp
qed

section \<open>Sample generation on a recursive model\<close>

text \<open>
  Claim C6. When the declared type of a field is already on the generator's \<open>seen\<close>
  list, whatever the value generator and its strategy: an array field yields the empty
  array; an optional scalar field yields null, which is what the generated instance holds
  when optional fields are included and which is left out when they are not; a required
  scalar field fails with the model-is-recursive error, and so does the generation of the
  instance that has it.
\<close>

theorem recursive_field_generation:
  assumes field: "propKind p \<noteq> Relationship" "\<not> isPrimitiveType (propType p)"
    and declared: "find (\<lambda>d. linkedFqn d = propType p) graph = Some declared"
      "linkedKind declared \<noteq> Enum"
    and concrete: "findConcreteSubclass graph declared = Inr concrete"
    and cycle: "linkedFqn concrete \<in> set seen"
  shows "(propIsArray p \<longrightarrow> visitField graph G inc seen p = Inr (ArrayValue []))
       \<and> (\<not> propIsArray p \<and> propIsOptional p \<longrightarrow>
            visitField graph G inc seen p = Inr NullValue
          \<and> generateProperties graph G True seen (p # ps)
              = (case generateProperties graph G True seen ps of
                   Inl e \<Rightarrow> Inl e
                 | Inr vals \<Rightarrow> Inr ((propName p, NullValue) # vals))
          \<and> generateProperties graph G False seen (p # ps) = generateProperties graph G False seen ps)
       \<and> (\<not> propIsArray p \<and> \<not> propIsOptional p \<longrightarrow>
            visitField graph G inc seen p = Inl (Error ''Model is recursive.'')
          \<and> generateProperties graph G inc seen (p # ps) = Inl (Error ''Model is recursive.''))"
  using assms by (simp add: visitField.simps)


theorem recursive_field_generation_witness:
  "find (\<lambda>d. linkedFqn d = ''org.acme.test.MyAsset'') [myAsset False False] = Some (myAsset False False)
   \<and> findConcreteSubclass [myAsset False False] (myAsset False False) = Inr (myAsset False False)
   \<and> linkedFqn (myAsset False False) \<in> set [''org.acme.test.MyAsset'']
   \<and> visitField [myAsset False False] sampleGenerator False [''org.acme.test.MyAsset'']
        (fieldOf ''org.acme.test.MyAsset'' ''theValues'' False False)
       = Inl (Error ''Model is recursive.'')
   \<and> generateProperties [myAsset False False] sampleGenerator False [''org.acme.test.MyAsset'']
        (linkedProperties (myAsset False False))
       = Inl (Error ''Model is recursive.'')
   \<and> visitField [myAsset True False] sampleGenerator False [''org.acme.test.MyAsset'']
        (fieldOf ''org.acme.test.MyAsset'' ''theValues'' True False)
       = Inr (ArrayValue [])
   \<and> visitField [myAsset False True] sampleGenerator True [''org.acme.test.MyAsset'']
        (fieldOf ''org.acme.test.MyAsset'' ''theValues'' False True)
       = Inr NullValue
   \<and> generateProperties [myAsset False True] sampleGenerator True [''org.acme.test.MyAsset'']
        [fieldOf ''org.acme.test.MyAsset'' ''theValues'' False True]
       = Inr [(''theValues'', NullValue)]
   \<and> generateProperties [myAsset False True] sampleGenerator False [''org.acme.test.MyAsset'']
        [fieldOf ''org.acme.test.MyAsset'' ''theValues'' False True]
       = Inr []"
proof -
  let ?seen = "[''org.acme.test.MyAsset'']"
  let ?p = "\<lambda>arr opt. fieldOf ''org.acme.test.MyAsset'' ''theValues'' arr opt"
  have field: "propKind (?p arr opt) \<noteq> Relationship" "\<not> isPrimitiveType (propType (?p arr opt))"
    "propType (?p arr opt) = ''org.acme.test.MyAsset''" "propIsArray (?p arr opt) = arr"
    "propIsOptional (?p arr opt) = opt" "propName (?p arr opt) = ''theValues''" for arr opt
    by (simp_all add: fieldOf_def isPrimitiveType_def)
  have declared: "find (\<lambda>d. linkedFqn d = propType (?p arr opt)) [myAsset arr opt] = Some (myAsset arr opt)"
    "linkedKind (myAsset arr opt) \<noteq> Enum" for arr opt
    by (simp_all add: fieldOf_def myAsset_def)
  have concrete: "findConcreteSubclass [myAsset arr opt] (myAsset arr opt) = Inr (myAsset arr opt)" for arr opt
    by (simp add: findConcreteSubclass_def myAsset_def)
  have cycle: "linkedFqn (myAsset arr opt) \<in> set ?seen" for arr opt
    by (simp add: myAsset_def)
  have t: "(propIsArray (?p arr opt) \<longrightarrow>
              visitField [myAsset arr opt] G inc ?seen (?p arr opt) = Inr (ArrayValue []))
       \<and> (\<not> propIsArray (?p arr opt) \<and> propIsOptional (?p arr opt) \<longrightarrow>
            visitField [myAsset arr opt] G inc ?seen (?p arr opt) = Inr NullValue
          \<and> generateProperties [myAsset arr opt] G True ?seen (?p arr opt # [])
              = (case generateProperties [myAsset arr opt] G True ?seen [] of
                   Inl e \<Rightarrow> Inl e
                 | Inr vals \<Rightarrow> Inr ((propName (?p arr opt), NullValue) # vals))
          \<and> generateProperties [myAsset arr opt] G False ?seen (?p arr opt # [])
              = generateProperties [myAsset arr opt] G False ?seen [])
       \<and> (\<not> propIsArray (?p arr opt) \<and> \<not> propIsOptional (?p arr opt) \<longrightarrow>
            visitField [myAsset arr opt] G inc ?seen (?p arr opt) = Inl (Error ''Model is recursive.'')
          \<and> generateProperties [myAsset arr opt] G inc ?seen (?p arr opt # [])
              = Inl (Error ''Model is recursive.''))" for arr opt G inc
    by (rule recursive_field_generation[OF field(1,2) declared concrete cycle])
  have whole: "generateProperties [myAsset False False] sampleGenerator False ?seen
        (linkedProperties (myAsset False False)) = Inl (Error ''Model is recursive.'')"
    by code_simp
  show ?thesis
    using declared[of False False] concrete[of False False] cycle[of False False] whole
      t[of False False sampleGenerator False]
      t[of True False sampleGenerator False]
      t[of False True sampleGenerator True]
    by (simp add: field)
qed

end
